theory Spec2Isabelle
  imports Complex_Main
begin

section \<open>Monte Carlo calibration of heteroscedasticity tests\<close>

text \<open>
  A shallow embedding of \<^verbatim>\<open>examples/heteroscedasticity_calibration.py\<close>.

  Conventions of the embedding.
  \<^item> A Python \<^verbatim>\<open>float\<close> is read as a real number and \<^verbatim>\<open>int / int\<close> as exact division;
    a Python \<^verbatim>\<open>int\<close> is an \<open>int\<close>; a sample count is a \<open>nat\<close>.
  \<^item> The functions imported from \<^verbatim>\<open>kernel_regression\<close> and the generator behind
    \<^verbatim>\<open>np.random\<close> are not part of the source; they are the fields of an environment
    record, about which nothing is assumed.
  \<^item> The process-wide state is made explicit: the state of numpy's global generator, the
    history of the calls of \<^verbatim>\<open>np.random.seed\<close>, and the console. Of the console only
    the lines listed at \<open>line\<close> are kept; the other banners and the tables are rendering.
  \<^item> A raised exception is a value \<open>fault\<close>; a statement that may raise returns
    \<open>fault + 'a\<close> or \<open>fault option\<close> next to the state reached.
\<close>

subsection \<open>Data\<close>

text \<open>
  \<open>Exc msg\<close> is an instance of \<^verbatim>\<open>Exception\<close> whose \<^verbatim>\<open>str\<close> is \<open>msg\<close>; \<open>BaseExc msg\<close> is
  one that derives from \<^verbatim>\<open>BaseException\<close> only (\<^verbatim>\<open>KeyboardInterrupt\<close>, \<^verbatim>\<open>SystemExit\<close>),
  which \<^verbatim>\<open>except Exception\<close> does not catch.
\<close>

datatype fault = Exc string | BaseExc string

record CalibrationResult =
  test_name :: string
  nominal_alpha :: real
  empirical_size :: real
  size_calibrated :: bool
  power_rate :: real
  power_adequate :: bool

text \<open>
  The console lines that are modelled.
  \<^item> \<open>Calibrating t\<close>: the banner \<^verbatim>\<open>CALIBRATING: ...\<close> printed on entry of \<^verbatim>\<open>calibrate_test\<close>
    (the upper-casing of the name is rendering);
  \<^item> \<open>TrialWarning trial msg\<close>: \<^verbatim>\<open>Warning: Trial {trial} failed: {e}\<close>;
  \<^item> \<open>SizeStatus c p\<close>: the status line after the size arm, printed from \<^verbatim>\<open>size_calibrated\<close>
    and \<^verbatim>\<open>size_perfect\<close>;
  \<^item> \<open>BestCalibrated r\<close>: the three lines about \<^verbatim>\<open>best\<close>;
  \<^item> \<open>NoTestPassed\<close>: \<^verbatim>\<open>No test passed both criteria.\<close>;
  \<^item> \<open>Oversized r\<close>: the line of one member of \<^verbatim>\<open>oversized\<close>;
  \<^item> \<open>CurveRow strength rate\<close>: one row of the power curve.
\<close>

datatype line =
    Calibrating string
  | TrialWarning int string
  | SizeStatus bool bool
  | BestCalibrated CalibrationResult
  | NoTestPassed
  | Oversized CalibrationResult
  | CurveRow real real

record 'g world =
  rng :: 'g
  seeded :: "int list"
  stdout :: "line list"

text \<open>
  What the file takes from outside: \<open>seed_state\<close> is the generator state that
  \<^verbatim>\<open>np.random.seed(seed)\<close> installs, \<open>gauss\<close> draws one standard normal value and advances
  the state, \<open>fit\<close> is \<^verbatim>\<open>NadarayaWatson(bandwidth=bandwidth).fit(X, y)\<close> and \<open>het_test\<close> is
  \<^verbatim>\<open>heteroscedasticity_test(model, X, y, test=test_name, alpha=alpha).is_heteroscedastic\<close>.
\<close>

record ('m, 'g) env =
  seed_state :: "int \<Rightarrow> 'g"
  gauss :: "'g \<Rightarrow> real \<times> 'g"
  fit :: "real \<Rightarrow> real list \<Rightarrow> real list \<Rightarrow> fault + 'm"
  het_test :: "'m \<Rightarrow> real list \<Rightarrow> real list \<Rightarrow> string \<Rightarrow> real \<Rightarrow> fault + bool"

subsection \<open>numpy primitives\<close>

definition np_random_seed :: "('m, 'g) env \<Rightarrow> int \<Rightarrow> 'g world \<Rightarrow> 'g world" where
  "np_random_seed E seed w = w\<lparr>rng := seed_state E seed, seeded := seeded w @ [seed]\<rparr>"

fun draws :: "('g \<Rightarrow> real \<times> 'g) \<Rightarrow> nat \<Rightarrow> 'g \<Rightarrow> real list \<times> 'g" where
  "draws d 0 g = ([], g)"
| "draws d (Suc n) g =
     (case d g of (z, g1) \<Rightarrow> (case draws d n g1 of (zs, g2) \<Rightarrow> (z # zs, g2)))"

definition np_random_randn :: "('m, 'g) env \<Rightarrow> nat \<Rightarrow> 'g world \<Rightarrow> real list \<times> 'g world" where
  "np_random_randn E n w = (case draws (gauss E) n (rng w) of (zs, g) \<Rightarrow> (zs, w\<lparr>rng := g\<rparr>))"

text \<open>\<^verbatim>\<open>np.linspace(0, 1, n)\<close>: a single point is the left end.\<close>

definition linspace01 :: "nat \<Rightarrow> real list" where
  "linspace01 n = (if n = 1 then [0] else map (\<lambda>i. real i / real (n - 1)) [0..<n])"

subsection \<open>Scenario generators\<close>

definition generate_nonlinear_homoscedastic ::
  "('m, 'g) env \<Rightarrow> nat \<Rightarrow> int \<Rightarrow> 'g world \<Rightarrow> (real list \<times> real list) \<times> 'g world" where
  "generate_nonlinear_homoscedastic E n seed w =
     (let w1 = np_random_seed E seed w;
          X = linspace01 n;
          y_true = map (\<lambda>x. sin (2 * pi * x)) X
      in case np_random_randn E n w1 of (z, w2) \<Rightarrow>
           (let noise = map (\<lambda>e. e * 0.2) z
            in ((X, map2 (+) y_true noise), w2)))"

definition generate_trumpet ::
  "('m, 'g) env \<Rightarrow> nat \<Rightarrow> int \<Rightarrow> real \<Rightarrow> 'g world \<Rightarrow> (real list \<times> real list) \<times> 'g world" where
  "generate_trumpet E n seed strength w =
     (let w1 = np_random_seed E seed w;
          X = linspace01 n;
          y_true = map (\<lambda>x. sin (2 * pi * x)) X;
          sigma = map (\<lambda>x. 0.1 + strength * x) X
      in case np_random_randn E n w1 of (z, w2) \<Rightarrow>
           (let noise = map2 (*) z sigma
            in ((X, map2 (+) y_true noise), w2)))"

subsection \<open>Loops\<close>

text \<open>\<^verbatim>\<open>range(n)\<close> for an integer \<open>n\<close>; empty when \<open>n \<le> 0\<close>.\<close>

definition py_range :: "int \<Rightarrow> int list" where
  "py_range n = map int [0..<nat n]"

text \<open>
  A \<^verbatim>\<open>for\<close> loop whose body may raise: the loop ends at the first fault, with the state the
  body left.
\<close>

fun for_each :: "('a \<Rightarrow> 's \<Rightarrow> fault option \<times> 's) \<Rightarrow> 'a list \<Rightarrow> 's \<Rightarrow> fault option \<times> 's" where
  "for_each body [] s = (None, s)"
| "for_each body (x # xs) s =
     (case body x s of
        (Some e, s1) \<Rightarrow> (Some e, s1)
      | (None, s1) \<Rightarrow> for_each body xs s1)"

subsection \<open>The calibration of one test\<close>

text \<open>The seed of trial \<open>trial\<close> in the size arm and in the power arm.\<close>

definition size_seed :: "int \<Rightarrow> int" where
  "size_seed trial = trial"

definition power_seed :: "int \<Rightarrow> int" where
  "power_seed trial = trial + 100000"

text \<open>The body of the first loop; the state is the counter \<^verbatim>\<open>false_positives\<close> and the world.\<close>

definition size_trial ::
  "('m, 'g) env \<Rightarrow> string \<Rightarrow> nat \<Rightarrow> real \<Rightarrow> real \<Rightarrow> int \<Rightarrow> int \<times> 'g world
     \<Rightarrow> fault option \<times> (int \<times> 'g world)" where
  "size_trial E name n_samples alpha bandwidth trial s =
     (case s of (false_positives, w) \<Rightarrow>
      (case generate_nonlinear_homoscedastic E n_samples (size_seed trial) w of ((X, y), w1) \<Rightarrow>
       (case fit E bandwidth X y of
          Inl e \<Rightarrow> (Some e, (false_positives, w1))
        | Inr model \<Rightarrow>
           (case het_test E model X y name alpha of
              Inr is_heteroscedastic \<Rightarrow>
                (None, (if is_heteroscedastic then false_positives + 1 else false_positives, w1))
            | Inl (Exc msg) \<Rightarrow>
                (None, (false_positives, w1\<lparr>stdout := stdout w1 @ [TrialWarning trial msg]\<rparr>))
            | Inl (BaseExc msg) \<Rightarrow> (Some (BaseExc msg), (false_positives, w1))))))"

text \<open>The body of the second loop; the state is the counter \<^verbatim>\<open>true_positives\<close> and the world.\<close>

definition power_trial ::
  "('m, 'g) env \<Rightarrow> string \<Rightarrow> nat \<Rightarrow> real \<Rightarrow> real \<Rightarrow> int \<Rightarrow> int \<times> 'g world
     \<Rightarrow> fault option \<times> (int \<times> 'g world)" where
  "power_trial E name n_samples alpha bandwidth trial s =
     (case s of (true_positives, w) \<Rightarrow>
      (case generate_trumpet E n_samples (power_seed trial) 1.0 w of ((X, y), w1) \<Rightarrow>
       (case fit E bandwidth X y of
          Inl e \<Rightarrow> (Some e, (true_positives, w1))
        | Inr model \<Rightarrow>
           (case het_test E model X y name alpha of
              Inr is_heteroscedastic \<Rightarrow>
                (None, (if is_heteroscedastic then true_positives + 1 else true_positives, w1))
            | Inl (Exc msg) \<Rightarrow> (None, (true_positives, w1))
            | Inl (BaseExc msg) \<Rightarrow> (Some (BaseExc msg), (true_positives, w1))))))"

definition size_arm ::
  "('m, 'g) env \<Rightarrow> string \<Rightarrow> nat \<Rightarrow> int \<Rightarrow> real \<Rightarrow> real \<Rightarrow> 'g world
     \<Rightarrow> fault option \<times> (int \<times> 'g world)" where
  "size_arm E name n_samples n_trials alpha bandwidth w =
     for_each (size_trial E name n_samples alpha bandwidth) (py_range n_trials) (0, w)"

definition power_arm ::
  "('m, 'g) env \<Rightarrow> string \<Rightarrow> nat \<Rightarrow> int \<Rightarrow> real \<Rightarrow> real \<Rightarrow> 'g world
     \<Rightarrow> fault option \<times> (int \<times> 'g world)" where
  "power_arm E name n_samples n_trials alpha bandwidth w =
     for_each (power_trial E name n_samples alpha bandwidth) (py_range n_trials) (0, w)"

text \<open>The division \<^verbatim>\<open>count / n_trials\<close>, which raises \<^verbatim>\<open>ZeroDivisionError\<close> on zero.\<close>

definition rate_of :: "int \<Rightarrow> int \<Rightarrow> fault + real" where
  "rate_of count n_trials =
     (if n_trials = 0 then Inl (Exc ''division by zero'')
      else Inr (real_of_int count / real_of_int n_trials))"

definition calibrate_test ::
  "('m, 'g) env \<Rightarrow> string \<Rightarrow> nat \<Rightarrow> int \<Rightarrow> real \<Rightarrow> real \<Rightarrow> 'g world
     \<Rightarrow> (fault + CalibrationResult) \<times> 'g world" where
  "calibrate_test E name n_samples n_trials alpha bandwidth w =
     (let w0 = w\<lparr>stdout := stdout w @ [Calibrating name]\<rparr>
      in case size_arm E name n_samples n_trials alpha bandwidth w0 of
           (Some e, (false_positives, w1)) \<Rightarrow> (Inl e, w1)
         | (None, (false_positives, w1)) \<Rightarrow>
            (case rate_of false_positives n_trials of
               Inl e \<Rightarrow> (Inl e, w1)
             | Inr esize \<Rightarrow>
                (let calibrated = (0.03 \<le> esize \<and> esize \<le> 0.10);
                     size_perfect = (0.04 \<le> esize \<and> esize \<le> 0.07);
                     w2 = w1\<lparr>stdout := stdout w1 @ [SizeStatus calibrated size_perfect]\<rparr>
                 in case power_arm E name n_samples n_trials alpha bandwidth w2 of
                      (Some e, (true_positives, w3)) \<Rightarrow> (Inl e, w3)
                    | (None, (true_positives, w3)) \<Rightarrow>
                       (case rate_of true_positives n_trials of
                          Inl e \<Rightarrow> (Inl e, w3)
                        | Inr pw \<Rightarrow>
                           (Inr \<lparr>test_name = name, nominal_alpha = alpha,
                                 empirical_size = esize, size_calibrated = calibrated,
                                 power_rate = pw, power_adequate = (pw \<ge> 0.80)\<rparr>,
                            w3)))))"

subsection \<open>The suite\<close>

definition tests :: "string list" where
  "tests = [''breusch_pagan'', ''white'', ''dette_munk_wagner'']"

text \<open>
  \<^verbatim>\<open>max(items, key=key)\<close> on a non-empty list, \<open>best\<close> being the leading item: a later item
  replaces the current one only when its key is strictly greater.
\<close>

fun max_key :: "('a \<Rightarrow> real) \<Rightarrow> 'a \<Rightarrow> 'a list \<Rightarrow> 'a" where
  "max_key key best [] = best"
| "max_key key best (x # xs) = max_key key (if key x > key best then x else best) xs"

text \<open>The section of \<^verbatim>\<open>run_full_calibration\<close> that follows the summary table.\<close>

definition analysis :: "CalibrationResult list \<Rightarrow> line list" where
  "analysis results =
     (let passing_tests = filter (\<lambda>r. size_calibrated r \<and> power_adequate r) results
      in case passing_tests of
           p # ps \<Rightarrow> [BestCalibrated (max_key (\<lambda>r. power_rate r - empirical_size r) p ps)]
         | [] \<Rightarrow>
            (let oversized = filter (\<lambda>r. \<not> size_calibrated r) results
             in NoTestPassed # map Oversized oversized))"

text \<open>
  The body of the loop over \<^verbatim>\<open>tests\<close>; the state is the list \<^verbatim>\<open>results\<close> and the world.
  The call leaves \<^verbatim>\<open>alpha\<close> and \<^verbatim>\<open>bandwidth\<close> at their defaults.
\<close>

definition suite_step ::
  "('m, 'g) env \<Rightarrow> string \<Rightarrow> CalibrationResult list \<times> 'g world
     \<Rightarrow> fault option \<times> (CalibrationResult list \<times> 'g world)" where
  "suite_step E name s =
     (case s of (results, w) \<Rightarrow>
      (case calibrate_test E name 200 500 0.05 0.1 w of
         (Inl e, w1) \<Rightarrow> (Some e, (results, w1))
       | (Inr result, w1) \<Rightarrow> (None, (results @ [result], w1))))"

definition run_full_calibration ::
  "('m, 'g) env \<Rightarrow> 'g world \<Rightarrow> (fault + CalibrationResult list) \<times> 'g world" where
  "run_full_calibration E w =
     (case for_each (suite_step E) tests ([], w) of
        (Some e, (results, w1)) \<Rightarrow> (Inl e, w1)
      | (None, (results, w1)) \<Rightarrow>
          (Inr results, w1\<lparr>stdout := stdout w1 @ analysis results\<rparr>))"

subsection \<open>The power curve\<close>

definition strengths :: "real list" where
  "strengths = [0.0, 0.25, 0.5, 0.75, 1.0, 1.5, 2.0]"

text \<open>The body of the inner loop; the state is the counter \<^verbatim>\<open>detections\<close> and the world.\<close>

definition sweep_trial ::
  "('m, 'g) env \<Rightarrow> string \<Rightarrow> nat \<Rightarrow> real \<Rightarrow> real \<Rightarrow> real \<Rightarrow> int \<Rightarrow> int \<times> 'g world
     \<Rightarrow> fault option \<times> (int \<times> 'g world)" where
  "sweep_trial E name n_samples alpha bandwidth strength trial s =
     (case s of (detections, w) \<Rightarrow>
      (case (if strength = 0 then generate_nonlinear_homoscedastic E n_samples trial w
             else generate_trumpet E n_samples trial strength w) of ((X, y), w1) \<Rightarrow>
       (case fit E bandwidth X y of
          Inl e \<Rightarrow> (Some e, (detections, w1))
        | Inr model \<Rightarrow>
           (case het_test E model X y name alpha of
              Inl e \<Rightarrow> (Some e, (detections, w1))
            | Inr is_heteroscedastic \<Rightarrow>
                (None, (if is_heteroscedastic then detections + 1 else detections, w1))))))"

text \<open>
  The body of the outer loop, for one \<^verbatim>\<open>strength\<close>, with the local constants of
  \<^verbatim>\<open>power_curve\<close> as arguments; the state is the world.
\<close>

definition sweep_point ::
  "('m, 'g) env \<Rightarrow> string \<Rightarrow> nat \<Rightarrow> int \<Rightarrow> real \<Rightarrow> real \<Rightarrow> real \<Rightarrow> 'g world
     \<Rightarrow> fault option \<times> 'g world" where
  "sweep_point E name n_samples n_trials alpha bandwidth strength w =
     (case for_each (sweep_trial E name n_samples alpha bandwidth strength)
             (py_range n_trials) (0, w) of
        (Some e, (detections, w1)) \<Rightarrow> (Some e, w1)
      | (None, (detections, w1)) \<Rightarrow>
         (case rate_of detections n_trials of
            Inl e \<Rightarrow> (Some e, w1)
          | Inr rate \<Rightarrow> (None, w1\<lparr>stdout := stdout w1 @ [CurveRow strength rate]\<rparr>)))"

definition power_curve :: "('m, 'g) env \<Rightarrow> string \<Rightarrow> 'g world \<Rightarrow> fault option \<times> 'g world" where
  "power_curve E name w = for_each (sweep_point E name 200 200 0.05 0.1) strengths w"

subsection \<open>Vocabulary of the statements\<close>

text \<open>
  The definitions of this subsection are not functions of the source: they name the
  quantities the statements below speak about.

  \<open>noise_draws E n seed\<close> is the value of \<^verbatim>\<open>np.random.randn(n)\<close> right after
  \<^verbatim>\<open>np.random.seed(seed)\<close>, and \<open>rng_after E n seed\<close> the generator state it leaves.
\<close>

definition noise_draws :: "('m, 'g) env \<Rightarrow> nat \<Rightarrow> int \<Rightarrow> real list" where
  "noise_draws E n seed = fst (draws (gauss E) n (seed_state E seed))"

definition rng_after :: "('m, 'g) env \<Rightarrow> nat \<Rightarrow> int \<Rightarrow> 'g" where
  "rng_after E n seed = snd (draws (gauss E) n (seed_state E seed))"

text \<open>The dataset a generator returns when it is called in a world without history.\<close>

definition blank :: "('m, 'g) env \<Rightarrow> 'g world" where
  "blank E = \<lparr>rng = seed_state E 0, seeded = [], stdout = []\<rparr>"

definition null_dataset :: "('m, 'g) env \<Rightarrow> nat \<Rightarrow> int \<Rightarrow> real list \<times> real list" where
  "null_dataset E n seed = fst (generate_nonlinear_homoscedastic E n seed (blank E))"

definition trumpet_dataset ::
  "('m, 'g) env \<Rightarrow> nat \<Rightarrow> int \<Rightarrow> real \<Rightarrow> real list \<times> real list" where
  "trumpet_dataset E n seed strength = fst (generate_trumpet E n seed strength (blank E))"

text \<open>
  What the fit and the test of one trial do on a dataset: the fit raises, or the fit returns
  and the test raises, or both return and the test gives its verdict.
\<close>

datatype attempt = FitRaised fault | TestRaised fault | Verdict bool

definition trial_outcome ::
  "('m, 'g) env \<Rightarrow> string \<Rightarrow> real \<Rightarrow> real \<Rightarrow> real list \<times> real list \<Rightarrow> attempt" where
  "trial_outcome E name alpha bandwidth d =
     (case fit E bandwidth (fst d) (snd d) of
        Inl e \<Rightarrow> FitRaised e
      | Inr model \<Rightarrow>
         (case het_test E model (fst d) (snd d) name alpha of
            Inl e \<Rightarrow> TestRaised e
          | Inr is_heteroscedastic \<Rightarrow> Verdict is_heteroscedastic))"

definition size_outcome ::
  "('m, 'g) env \<Rightarrow> string \<Rightarrow> nat \<Rightarrow> real \<Rightarrow> real \<Rightarrow> int \<Rightarrow> attempt" where
  "size_outcome E name n_samples alpha bandwidth trial =
     trial_outcome E name alpha bandwidth (null_dataset E n_samples (size_seed trial))"

definition power_outcome ::
  "('m, 'g) env \<Rightarrow> string \<Rightarrow> nat \<Rightarrow> real \<Rightarrow> real \<Rightarrow> int \<Rightarrow> attempt" where
  "power_outcome E name n_samples alpha bandwidth trial =
     trial_outcome E name alpha bandwidth (trumpet_dataset E n_samples (power_seed trial) 1)"

definition sweep_outcome ::
  "('m, 'g) env \<Rightarrow> string \<Rightarrow> nat \<Rightarrow> real \<Rightarrow> real \<Rightarrow> real \<Rightarrow> int \<Rightarrow> attempt" where
  "sweep_outcome E name n_samples alpha bandwidth strength trial =
     trial_outcome E name alpha bandwidth
       (if strength = 0 then null_dataset E n_samples trial
        else trumpet_dataset E n_samples trial strength)"

text \<open>
  The fault with which an outcome leaves a loop of \<^verbatim>\<open>calibrate_test\<close>, and the one with which
  it leaves the loop of \<^verbatim>\<open>power_curve\<close>; \<open>None\<close> when the loop goes on.
\<close>

fun calibration_abort :: "attempt \<Rightarrow> fault option" where
  "calibration_abort (FitRaised e) = Some e"
| "calibration_abort (TestRaised (Exc msg)) = None"
| "calibration_abort (TestRaised (BaseExc msg)) = Some (BaseExc msg)"
| "calibration_abort (Verdict h) = None"

fun sweep_abort :: "attempt \<Rightarrow> fault option" where
  "sweep_abort (FitRaised e) = Some e"
| "sweep_abort (TestRaised e) = Some e"
| "sweep_abort (Verdict h) = None"

text \<open>What an outcome adds to the counter of rejections.\<close>

definition hit :: "attempt \<Rightarrow> int" where
  "hit oc = (if oc = Verdict True then 1 else 0)"

text \<open>The diagnostic of a trial whose test raised an \<^verbatim>\<open>Exception\<close>.\<close>

fun warning_of :: "int \<Rightarrow> attempt \<Rightarrow> line list" where
  "warning_of trial (TestRaised (Exc msg)) = [TrialWarning trial msg]"
| "warning_of trial oc = []"

text \<open>The names in the banners of a console, in the order of printing.\<close>

fun banner_of :: "line \<Rightarrow> string list" where
  "banner_of (Calibrating name) = [name]"
| "banner_of l = []"

definition banners :: "line list \<Rightarrow> string list" where
  "banners ls = concat (map banner_of ls)"

text \<open>
  The number of trials of an arm whose test rejected, and the diagnostics of the size arm, for
  the trials \<^verbatim>\<open>range(n)\<close>.
\<close>

definition size_hits :: "('m, 'g) env \<Rightarrow> string \<Rightarrow> nat \<Rightarrow> int \<Rightarrow> real \<Rightarrow> real \<Rightarrow> int" where
  "size_hits E name ns n a b =
     sum_list (map (\<lambda>t. hit (size_outcome E name ns a b t)) (py_range n))"

definition power_hits :: "('m, 'g) env \<Rightarrow> string \<Rightarrow> nat \<Rightarrow> int \<Rightarrow> real \<Rightarrow> real \<Rightarrow> int" where
  "power_hits E name ns n a b =
     sum_list (map (\<lambda>t. hit (power_outcome E name ns a b t)) (py_range n))"

definition sweep_hits ::
  "('m, 'g) env \<Rightarrow> string \<Rightarrow> nat \<Rightarrow> int \<Rightarrow> real \<Rightarrow> real \<Rightarrow> real \<Rightarrow> int" where
  "sweep_hits E name ns n a b strength =
     sum_list (map (\<lambda>t. hit (sweep_outcome E name ns a b strength t)) (py_range n))"

definition size_warnings ::
  "('m, 'g) env \<Rightarrow> string \<Rightarrow> nat \<Rightarrow> int \<Rightarrow> real \<Rightarrow> real \<Rightarrow> line list" where
  "size_warnings E name ns n a b =
     concat (map (\<lambda>t. warning_of t (size_outcome E name ns a b t)) (py_range n))"

text \<open>
  The condition under which \<^verbatim>\<open>calibrate_test\<close> returns: the number of trials is not zero and
  no trial of either arm leaves its loop.
\<close>

definition calibration_runs ::
  "('m, 'g) env \<Rightarrow> string \<Rightarrow> nat \<Rightarrow> int \<Rightarrow> real \<Rightarrow> real \<Rightarrow> bool" where
  "calibration_runs E name ns n a b =
     (n \<noteq> 0
      \<and> (\<forall>t\<in>set (py_range n). calibration_abort (size_outcome E name ns a b t) = None)
      \<and> (\<forall>t\<in>set (py_range n). calibration_abort (power_outcome E name ns a b t) = None))"

subsection \<open>Environments of the examples\<close>

text \<open>
  A small generator and small stand-ins for the fit and the test, on which the functions
  above can be evaluated. The generator state is a counter: seeding with \<open>seed\<close> sets it to
  \<open>seed\<close>, and a draw returns the counter and increments it. The test looks at the first
  response only.
\<close>

definition demo_env :: "(unit, nat) env" where
  "demo_env =
     \<lparr>seed_state = (\<lambda>seed. nat seed),
      gauss = (\<lambda>g. (real g, Suc g)),
      fit = (\<lambda>bandwidth X y. Inr ()),
      het_test = (\<lambda>model X y name alpha.
        case y of
          [] \<Rightarrow> Inr False
        | v # vs \<Rightarrow>
            if v < 0.1 then Inr True
            else if v < 0.3 then Inl (Exc ''singular'')
            else Inr (10000 \<le> v \<and> v < 10000.75))\<rparr>"

definition fit_fails_env :: "(unit, nat) env" where
  "fit_fails_env = demo_env\<lparr>fit := (\<lambda>bandwidth X y. Inl (Exc ''singular''))\<rparr>"

definition test_fails_env :: "(unit, nat) env" where
  "test_fails_env = demo_env\<lparr>het_test := (\<lambda>model X y name alpha. Inl (Exc ''boom''))\<rparr>"

definition const_env :: "(unit, nat) env" where
  "const_env = demo_env\<lparr>het_test := (\<lambda>model X y name alpha. Inr True)\<rparr>"

text \<open>
  An environment whose test rejects the first \<open>k\<close> seeds of the size arm and the first \<open>j\<close>
  trials of the power arm, when a dataset has one point (the response of the size arm is
  then \<open>0.2 * seed\<close> and that of the power arm \<open>10000 + 0.1 * trial\<close>).
\<close>

definition band_env :: "int \<Rightarrow> int \<Rightarrow> (unit, nat) env" where
  "band_env k j =
     demo_env\<lparr>het_test := (\<lambda>model X y name alpha.
        case y of
          [] \<Rightarrow> Inr False
        | v # vs \<Rightarrow>
            Inr (if v < 10000 then v < 0.2 * real_of_int k
                 else v < 10000 + 0.1 * real_of_int j))\<rparr>"

text \<open>The result of a calibration in which every test of both arms rejects.\<close>

definition all_reject :: "string \<Rightarrow> real \<Rightarrow> CalibrationResult" where
  "all_reject name alpha =
     \<lparr>test_name = name, nominal_alpha = alpha, empirical_size = 1, size_calibrated = False,
      power_rate = 1, power_adequate = True\<rparr>"

text \<open>Results for the examples of the selection of the best test.\<close>

definition result_R1 :: CalibrationResult where
  "result_R1 = \<lparr>test_name = ''breusch_pagan'', nominal_alpha = 0.05, empirical_size = 0.05,
                 size_calibrated = True, power_rate = 0.85, power_adequate = True\<rparr>"

definition result_R2 :: CalibrationResult where
  "result_R2 = \<lparr>test_name = ''white'', nominal_alpha = 0.05, empirical_size = 0.06,
                 size_calibrated = True, power_rate = 0.90, power_adequate = True\<rparr>"

definition result_R3 :: CalibrationResult where
  "result_R3 = \<lparr>test_name = ''breusch_pagan'', nominal_alpha = 0.05, empirical_size = 0.20,
                 size_calibrated = False, power_rate = 0.90, power_adequate = True\<rparr>"

definition result_R4 :: CalibrationResult where
  "result_R4 = \<lparr>test_name = ''white'', nominal_alpha = 0.05, empirical_size = 0.05,
                 size_calibrated = True, power_rate = 0.50, power_adequate = False\<rparr>"

section \<open>Properties\<close>

subsection \<open>Generators and ranges\<close>

lemma draws_length: "length (fst (draws d n g)) = n"
proof (induction n arbitrary: g)
  case 0
  show ?case by simp
next
  case (Suc n)
  obtain z g1 where a: "d g = (z, g1)" by (cases "d g")
  obtain zs g2 where b: "draws d n g1 = (zs, g2)" by (cases "draws d n g1")
  from Suc[of g1] b have "length zs = n" by simp
  with a b show ?case by simp
qed

lemma length_noise_draws: "length (noise_draws E n seed) = n"
  by (simp add: noise_draws_def draws_length)

lemma length_linspace01: "length (linspace01 n) = n"
  by (simp add: linspace01_def)

lemma nth_linspace01:
  "i < n \<Longrightarrow> linspace01 n ! i = (if n = 1 then 0 else real i / real (n - 1))"
  by (auto simp: linspace01_def)

lemma generate_null_eq:
  "generate_nonlinear_homoscedastic E n seed w =
     ((linspace01 n,
       map2 (+) (map (\<lambda>x. sin (2 * pi * x)) (linspace01 n))
                (map (\<lambda>e. e * 0.2) (noise_draws E n seed))),
      w\<lparr>rng := rng_after E n seed, seeded := seeded w @ [seed]\<rparr>)"
  by (simp add: generate_nonlinear_homoscedastic_def np_random_seed_def np_random_randn_def
      noise_draws_def rng_after_def Let_def split: prod.splits)

lemma generate_trumpet_eq:
  "generate_trumpet E n seed strength w =
     ((linspace01 n,
       map2 (+) (map (\<lambda>x. sin (2 * pi * x)) (linspace01 n))
                (map2 (*) (noise_draws E n seed) (map (\<lambda>x. 0.1 + strength * x) (linspace01 n)))),
      w\<lparr>rng := rng_after E n seed, seeded := seeded w @ [seed]\<rparr>)"
  by (simp add: generate_trumpet_def np_random_seed_def np_random_randn_def
      noise_draws_def rng_after_def Let_def split: prod.splits)

lemma generate_null_dataset:
  "generate_nonlinear_homoscedastic E n seed w =
     (null_dataset E n seed, w\<lparr>rng := rng_after E n seed, seeded := seeded w @ [seed]\<rparr>)"
  by (simp add: null_dataset_def generate_null_eq)

lemma generate_trumpet_dataset:
  "generate_trumpet E n seed strength w =
     (trumpet_dataset E n seed strength,
      w\<lparr>rng := rng_after E n seed, seeded := seeded w @ [seed]\<rparr>)"
  by (simp add: trumpet_dataset_def generate_trumpet_eq)

lemma set_py_range: "set (py_range n) = {0..<n}"
  apply (auto simp: py_range_def image_iff)
  subgoal for x by (rule bexI[of _ "nat x"]) auto
  done

lemma length_py_range: "length (py_range n) = nat n"
  by (simp add: py_range_def)

lemma distinct_py_range: "distinct (py_range n)"
  by (simp add: py_range_def distinct_map inj_on_def)

subsection \<open>Loops whose body acts uniformly\<close>

text \<open>
  Each of the three trial loops has a body that, whatever the counter and the world, leaves
  the loop or not, adds to the counter and changes the world in a way that depends on the
  trial only.
\<close>

lemma for_each_completes:
  fixes body :: "'a \<Rightarrow> int \<times> 'w \<Rightarrow> fault option \<times> (int \<times> 'w)"
  assumes body: "\<And>t c w. body t (c, w) = (ab t, (c + inc t, upd t w))"
      and ok: "\<forall>t\<in>set ts. ab t = None"
  shows "for_each body ts (c, w) = (None, (c + sum_list (map inc ts), fold upd ts w))"
  using ok
proof (induction ts arbitrary: c w)
  case Nil
  show ?case by simp
next
  case (Cons t ts)
  then show ?case by (simp add: body add.assoc)
qed

lemma for_each_None_iff:
  fixes body :: "'a \<Rightarrow> int \<times> 'w \<Rightarrow> fault option \<times> (int \<times> 'w)"
  assumes body: "\<And>t c w. body t (c, w) = (ab t, (c + inc t, upd t w))"
  shows "fst (for_each body ts (c, w)) = None \<longleftrightarrow> (\<forall>t\<in>set ts. ab t = None)"
proof (induction ts arbitrary: c w)
  case Nil
  show ?case by simp
next
  case (Cons t ts)
  show ?case by (cases "ab t") (simp_all add: body Cons.IH)
qed

subsection \<open>The bodies of the trial loops\<close>

lemma size_trial_step:
  "size_trial E name ns a b t (c, w) =
     (calibration_abort (size_outcome E name ns a b t),
      (c + hit (size_outcome E name ns a b t),
       w\<lparr>rng := rng_after E ns (size_seed t), seeded := seeded w @ [size_seed t],
         stdout := stdout w @ warning_of t (size_outcome E name ns a b t)\<rparr>))"
  by (simp add: size_trial_def generate_null_dataset size_outcome_def trial_outcome_def hit_def
      split: prod.splits sum.splits fault.splits)

lemma power_trial_step:
  "power_trial E name ns a b t (c, w) =
     (calibration_abort (power_outcome E name ns a b t),
      (c + hit (power_outcome E name ns a b t),
       w\<lparr>rng := rng_after E ns (power_seed t), seeded := seeded w @ [power_seed t]\<rparr>))"
  by (simp add: power_trial_def generate_trumpet_dataset power_outcome_def trial_outcome_def hit_def
      split: prod.splits sum.splits fault.splits)

lemma sweep_trial_step:
  "sweep_trial E name ns a b strength t (c, w) =
     (sweep_abort (sweep_outcome E name ns a b strength t),
      (c + hit (sweep_outcome E name ns a b strength t),
       w\<lparr>rng := rng_after E ns t, seeded := seeded w @ [t]\<rparr>))"
  by (simp add: sweep_trial_def generate_trumpet_dataset generate_null_dataset
      sweep_outcome_def trial_outcome_def hit_def
      split: prod.splits sum.splits fault.splits)

subsection \<open>The arms of a calibration\<close>

lemma fold_seed_warn_seeded:
  "seeded (fold (\<lambda>t w. w\<lparr>rng := r t, seeded := seeded w @ [f t], stdout := stdout w @ l t\<rparr>) ts w)
     = seeded w @ map f ts"
  by (induction ts arbitrary: w) simp_all

lemma fold_seed_warn_stdout:
  "stdout (fold (\<lambda>t w. w\<lparr>rng := r t, seeded := seeded w @ [f t], stdout := stdout w @ l t\<rparr>) ts w)
     = stdout w @ concat (map l ts)"
  by (induction ts arbitrary: w) simp_all

lemma fold_seed_seeded:
  "seeded (fold (\<lambda>t w. w\<lparr>rng := r t, seeded := seeded w @ [f t]\<rparr>) ts w) = seeded w @ map f ts"
  by (induction ts arbitrary: w) simp_all

lemma fold_seed_stdout:
  "stdout (fold (\<lambda>t w. w\<lparr>rng := r t, seeded := seeded w @ [f t]\<rparr>) ts w) = stdout w"
  by (induction ts arbitrary: w) simp_all

lemma hit_bounds: "0 \<le> hit oc \<and> hit oc \<le> 1"
  by (simp add: hit_def)

lemma sum_hit_bounds:
  "0 \<le> sum_list (map (\<lambda>t. hit (f t)) ts) \<and> sum_list (map (\<lambda>t. hit (f t)) ts) \<le> int (length ts)"
  by (induction ts) (auto simp: hit_def)

lemma sum_hit_count:
  "sum_list (map (\<lambda>t. hit (f t)) ts) = int (length (filter (\<lambda>t. f t = Verdict True) ts))"
  by (induction ts) (auto simp: hit_def)

lemma size_arm_None_iff:
  "fst (size_arm E name ns n a b w) = None \<longleftrightarrow>
     (\<forall>t\<in>set (py_range n). calibration_abort (size_outcome E name ns a b t) = None)"
  unfolding size_arm_def
  by (rule for_each_None_iff) (rule size_trial_step)

lemma power_arm_None_iff:
  "fst (power_arm E name ns n a b w) = None \<longleftrightarrow>
     (\<forall>t\<in>set (py_range n). calibration_abort (power_outcome E name ns a b t) = None)"
  unfolding power_arm_def
  by (rule for_each_None_iff) (rule power_trial_step)

lemma size_arm_completes:
  assumes "\<forall>t\<in>set (py_range n). calibration_abort (size_outcome E name ns a b t) = None"
  shows "\<exists>w'. size_arm E name ns n a b w = (None, (size_hits E name ns n a b, w'))
           \<and> seeded w' = seeded w @ map size_seed (py_range n)
           \<and> stdout w' = stdout w
                @ concat (map (\<lambda>t. warning_of t (size_outcome E name ns a b t)) (py_range n))"
  unfolding size_arm_def size_hits_def
  by (subst for_each_completes[OF size_trial_step assms])
     (simp add: fold_seed_warn_seeded fold_seed_warn_stdout)

lemma power_arm_completes:
  assumes "\<forall>t\<in>set (py_range n). calibration_abort (power_outcome E name ns a b t) = None"
  shows "\<exists>w'. power_arm E name ns n a b w = (None, (power_hits E name ns n a b, w'))
           \<and> seeded w' = seeded w @ map power_seed (py_range n)
           \<and> stdout w' = stdout w"
  unfolding power_arm_def power_hits_def
  by (subst for_each_completes[OF power_trial_step assms])
     (simp add: fold_seed_seeded fold_seed_stdout)

lemma calibrate_test_Inr_runs:
  assumes "calibrate_test E name ns n a b w = (Inr r, w')"
  shows "calibration_runs E name ns n a b"
proof -
  let ?w0 = "w\<lparr>stdout := stdout w @ [Calibrating name]\<rparr>"
  obtain r1 fp w1 where s: "size_arm E name ns n a b ?w0 = (r1, (fp, w1))"
    by (metis prod_cases3)
  from assms s have r1: "r1 = None"
    by (cases r1) (simp_all add: calibrate_test_def Let_def)
  from assms s r1 have n0: "n \<noteq> 0"
    by (auto simp: calibrate_test_def Let_def rate_of_def)
  let ?sz = "real_of_int fp / real_of_int n"
  let ?w2 = "w1\<lparr>stdout := stdout w1 @ [SizeStatus (0.03 \<le> ?sz \<and> ?sz \<le> 0.10) (0.04 \<le> ?sz \<and> ?sz \<le> 0.07)]\<rparr>"
  obtain r2 tp w3 where p: "power_arm E name ns n a b ?w2 = (r2, (tp, w3))"
    by (metis prod_cases3)
  from assms s r1 n0 p have r2: "r2 = None"
    by (cases r2) (simp_all add: calibrate_test_def Let_def rate_of_def)
  from s r1 have "fst (size_arm E name ns n a b ?w0) = None" by simp
  then have a1: "\<forall>t\<in>set (py_range n). calibration_abort (size_outcome E name ns a b t) = None"
    by (simp only: size_arm_None_iff)
  from p r2 have "fst (power_arm E name ns n a b ?w2) = None" by simp
  then have a2: "\<forall>t\<in>set (py_range n). calibration_abort (power_outcome E name ns a b t) = None"
    by (simp only: power_arm_None_iff)
  from n0 a1 a2 show ?thesis by (simp add: calibration_runs_def)
qed

lemma calibrate_test_runs:
  assumes "calibration_runs E name ns n a b"
  shows "\<exists>w'. calibrate_test E name ns n a b w =
           (Inr \<lparr>test_name = name, nominal_alpha = a,
                 empirical_size = real_of_int (size_hits E name ns n a b) / real_of_int n,
                 size_calibrated =
                   (0.03 \<le> real_of_int (size_hits E name ns n a b) / real_of_int n
                    \<and> real_of_int (size_hits E name ns n a b) / real_of_int n \<le> 0.10),
                 power_rate = real_of_int (power_hits E name ns n a b) / real_of_int n,
                 power_adequate =
                   (0.80 \<le> real_of_int (power_hits E name ns n a b) / real_of_int n)\<rparr>, w')
         \<and> seeded w' = seeded w @ map size_seed (py_range n) @ map power_seed (py_range n)
         \<and> stdout w' = stdout w @ Calibrating name # size_warnings E name ns n a b
             @ [SizeStatus
                  (0.03 \<le> real_of_int (size_hits E name ns n a b) / real_of_int n
                    \<and> real_of_int (size_hits E name ns n a b) / real_of_int n \<le> 0.10)
                  (0.04 \<le> real_of_int (size_hits E name ns n a b) / real_of_int n
                    \<and> real_of_int (size_hits E name ns n a b) / real_of_int n \<le> 0.07)]"
proof -
  from assms have n0: "n \<noteq> 0"
    and a1: "\<forall>t\<in>set (py_range n). calibration_abort (size_outcome E name ns a b t) = None"
    and a2: "\<forall>t\<in>set (py_range n). calibration_abort (power_outcome E name ns a b t) = None"
    by (simp_all add: calibration_runs_def)
  let ?w0 = "w\<lparr>stdout := stdout w @ [Calibrating name]\<rparr>"
  from size_arm_completes[OF a1, where w = ?w0]
  obtain w1 where s: "size_arm E name ns n a b ?w0 = (None, (size_hits E name ns n a b, w1))"
    and s1: "seeded w1 = seeded w @ map size_seed (py_range n)"
    and s2: "stdout w1 = stdout w @ Calibrating name # size_warnings E name ns n a b"
    by (auto simp: size_warnings_def)
  let ?sz = "real_of_int (size_hits E name ns n a b) / real_of_int n"
  let ?w2 = "w1\<lparr>stdout := stdout w1 @ [SizeStatus (0.03 \<le> ?sz \<and> ?sz \<le> 0.10) (0.04 \<le> ?sz \<and> ?sz \<le> 0.07)]\<rparr>"
  from power_arm_completes[OF a2, where w = ?w2]
  obtain w3 where p: "power_arm E name ns n a b ?w2 = (None, (power_hits E name ns n a b, w3))"
    and p1: "seeded w3 = seeded w1 @ map power_seed (py_range n)"
    and p2: "stdout w3 = stdout ?w2"
    by auto
  have "calibrate_test E name ns n a b w =
           (Inr \<lparr>test_name = name, nominal_alpha = a,
                 empirical_size = ?sz,
                 size_calibrated = (0.03 \<le> ?sz \<and> ?sz \<le> 0.10),
                 power_rate = real_of_int (power_hits E name ns n a b) / real_of_int n,
                 power_adequate =
                   (0.80 \<le> real_of_int (power_hits E name ns n a b) / real_of_int n)\<rparr>, w3)"
    using n0 s p by (simp add: calibrate_test_def Let_def rate_of_def)
  with s1 s2 p1 p2 show ?thesis by simp
qed

subsection \<open>The example environment, evaluated\<close>

lemma py_range_10: "py_range 10 = [0,1,2,3,4,5,6,7,8,9]"
  by (simp add: py_range_def upt_rec)

lemma demo_fit: "fit demo_env b X y = Inr ()"
  by (simp add: demo_env_def)

lemma demo_het_test:
  "het_test demo_env m X (v # vs) name a =
     (if v < 0.1 then Inr True
      else if v < 0.3 then Inl (Exc ''singular'')
      else Inr (10000 \<le> v \<and> v < 10000.75))"
  by (simp add: demo_env_def)

lemma demo_null_1: "null_dataset demo_env (Suc 0) seed = ([0], [real (nat seed) * 0.2])"
  by (simp add: null_dataset_def generate_null_eq linspace01_def noise_draws_def demo_env_def)

lemma demo_trumpet_1: "trumpet_dataset demo_env (Suc 0) seed s = ([0], [real (nat seed) * 0.1])"
  by (simp add: trumpet_dataset_def generate_trumpet_eq linspace01_def noise_draws_def demo_env_def)

lemma demo_size_outcome:
  "size_outcome demo_env name (Suc 0) a b t =
     (if real (nat t) * 0.2 < 0.1 then Verdict True
      else if real (nat t) * 0.2 < 0.3 then TestRaised (Exc ''singular'')
      else Verdict (10000 \<le> real (nat t) * 0.2 \<and> real (nat t) * 0.2 < 10000.75))"
  by (simp add: size_outcome_def trial_outcome_def demo_null_1 size_seed_def demo_fit demo_het_test)

lemma demo_power_outcome:
  "power_outcome demo_env name (Suc 0) a b t =
     (if real (nat (t + 100000)) * 0.1 < 0.1 then Verdict True
      else if real (nat (t + 100000)) * 0.1 < 0.3 then TestRaised (Exc ''singular'')
      else Verdict (10000 \<le> real (nat (t + 100000)) * 0.1 \<and> real (nat (t + 100000)) * 0.1 < 10000.75))"
  by (simp add: power_outcome_def trial_outcome_def demo_trumpet_1 power_seed_def demo_fit demo_het_test)

lemma demo_runs: "calibration_runs demo_env name (Suc 0) 10 a b"
  by (simp add: calibration_runs_def py_range_10 demo_size_outcome demo_power_outcome)

lemma demo_size_hits: "size_hits demo_env name (Suc 0) 10 a b = 1"
  by (simp add: size_hits_def py_range_10 demo_size_outcome hit_def)

lemma demo_power_hits: "power_hits demo_env name (Suc 0) 10 a b = 8"
  by (simp add: power_hits_def py_range_10 demo_power_outcome hit_def)

lemma demo_size_warnings: "size_warnings demo_env name (Suc 0) 10 a b = [TrialWarning 1 ''singular'']"
  by (simp add: size_warnings_def py_range_10 demo_size_outcome)

lemma demo_calibration:
  "\<exists>w'. calibrate_test demo_env name (Suc 0) 10 a b w =
     (Inr \<lparr>test_name = name, nominal_alpha = a, empirical_size = 0.10, size_calibrated = True,
           power_rate = 0.80, power_adequate = True\<rparr>, w')
     \<and> seeded w' = seeded w @ map size_seed (py_range 10) @ map power_seed (py_range 10)
     \<and> stdout w' = stdout w @ [Calibrating name, TrialWarning 1 ''singular'', SizeStatus True False]"
  using calibrate_test_runs[OF demo_runs, of name a b w]
  by (simp add: demo_size_hits demo_power_hits demo_size_warnings)

lemma band_null_1: "null_dataset (band_env k j) (Suc 0) seed = ([0], [real (nat seed) * 0.2])"
  by (simp add: null_dataset_def generate_null_eq linspace01_def noise_draws_def band_env_def
      demo_env_def)

lemma band_trumpet_1:
  "trumpet_dataset (band_env k j) (Suc 0) seed s = ([0], [real (nat seed) * 0.1])"
  by (simp add: trumpet_dataset_def generate_trumpet_eq linspace01_def noise_draws_def
      band_env_def demo_env_def)

lemma band_fit: "fit (band_env k j) b X y = Inr ()"
  by (simp add: band_env_def demo_env_def)

lemma band_het_test:
  "het_test (band_env k j) m X [v] name a =
     Inr (if v < 10000 then v < 0.2 * real_of_int k else v < 10000 + 0.1 * real_of_int j)"
  by (simp add: band_env_def demo_env_def)

lemma band_size_outcome:
  assumes "0 \<le> t" "t < 50000"
  shows "size_outcome (band_env k j) name (Suc 0) a b t = Verdict (t < k)"
proof -
  from assms have e: "real (nat t) * 0.2 = real_of_int t * 0.2" by simp
  from assms have lt: "real_of_int t * 0.2 < 10000" by simp
  have v: "(real_of_int t * 0.2 < 0.2 * real_of_int k) = (t < k)" by simp
  show ?thesis
    unfolding size_outcome_def trial_outcome_def band_null_1 size_seed_def fst_conv snd_conv
      band_fit band_het_test e
    by (simp only: lt if_True v sum.case)
qed

lemma band_power_outcome:
  assumes "0 \<le> t"
  shows "power_outcome (band_env k j) name (Suc 0) a b t = Verdict (t < j)"
proof -
  from assms have e: "real (nat (power_seed t)) * 0.1 = (real_of_int t + 100000) * 0.1"
    by (simp add: power_seed_def)
  from assms have lt: "\<not> (real_of_int t + 100000) * 0.1 < 10000" by simp
  have v: "((real_of_int t + 100000) * 0.1 < 10000 + 0.1 * real_of_int j) = (t < j)" by simp
  show ?thesis
    unfolding power_outcome_def trial_outcome_def band_trumpet_1 fst_conv snd_conv
      band_fit band_het_test e
    by (simp only: lt if_False v sum.case)
qed

lemma count_below:
  "sum_list (map (\<lambda>t. hit (Verdict (t < k))) (map int [0..<N])) = min (max k 0) (int N)"
  by (induction N) (auto simp: hit_def)

lemma band_size_hits:
  assumes "0 \<le> k" "k \<le> n" "n \<le> 50000"
  shows "size_hits (band_env k j) name (Suc 0) n a b = k"
proof -
  have "map (\<lambda>t. hit (size_outcome (band_env k j) name (Suc 0) a b t)) (py_range n)
          = map (\<lambda>t. hit (Verdict (t < k))) (py_range n)"
    using assms by (intro map_cong refl) (simp add: set_py_range band_size_outcome)
  then have "size_hits (band_env k j) name (Suc 0) n a b = min (max k 0) (int (nat n))"
    by (simp only: size_hits_def py_range_def count_below)
  with assms show ?thesis by simp
qed

lemma band_power_hits:
  assumes "0 \<le> j" "j \<le> n"
  shows "power_hits (band_env k j) name (Suc 0) n a b = j"
proof -
  have "map (\<lambda>t. hit (power_outcome (band_env k j) name (Suc 0) a b t)) (py_range n)
          = map (\<lambda>t. hit (Verdict (t < j))) (py_range n)"
    by (intro map_cong refl) (simp add: set_py_range band_power_outcome)
  then have "power_hits (band_env k j) name (Suc 0) n a b = min (max j 0) (int (nat n))"
    by (simp only: power_hits_def py_range_def count_below)
  with assms show ?thesis by simp
qed

lemma band_runs:
  assumes "0 < n" "n \<le> 50000"
  shows "calibration_runs (band_env k j) name (Suc 0) n a b"
  using assms
  by (simp add: calibration_runs_def set_py_range band_size_outcome band_power_outcome)

lemma band_calibration:
  assumes "0 \<le> k" "k \<le> n" "0 \<le> j" "j \<le> n" "0 < n" "n \<le> 50000"
  shows "\<exists>w'. calibrate_test (band_env k j) name (Suc 0) n a b w =
           (Inr \<lparr>test_name = name, nominal_alpha = a,
                 empirical_size = real_of_int k / real_of_int n,
                 size_calibrated = (0.03 \<le> real_of_int k / real_of_int n
                                    \<and> real_of_int k / real_of_int n \<le> 0.10),
                 power_rate = real_of_int j / real_of_int n,
                 power_adequate = (0.80 \<le> real_of_int j / real_of_int n)\<rparr>, w')
         \<and> last (stdout w') = SizeStatus
              (0.03 \<le> real_of_int k / real_of_int n \<and> real_of_int k / real_of_int n \<le> 0.10)
              (0.04 \<le> real_of_int k / real_of_int n \<and> real_of_int k / real_of_int n \<le> 0.07)"
proof -
  note runs = band_runs[OF assms(5,6), of k j name a b]
  note s = band_size_hits[OF assms(1,2,6), of j name a b]
  note p = band_power_hits[OF assms(3,4), of k name a b]
  from calibrate_test_runs[OF runs, of w] obtain w' where
    "calibrate_test (band_env k j) name (Suc 0) n a b w =
           (Inr \<lparr>test_name = name, nominal_alpha = a,
                 empirical_size = real_of_int (size_hits (band_env k j) name (Suc 0) n a b) / real_of_int n,
                 size_calibrated =
                   (0.03 \<le> real_of_int (size_hits (band_env k j) name (Suc 0) n a b) / real_of_int n
                    \<and> real_of_int (size_hits (band_env k j) name (Suc 0) n a b) / real_of_int n \<le> 0.10),
                 power_rate = real_of_int (power_hits (band_env k j) name (Suc 0) n a b) / real_of_int n,
                 power_adequate =
                   (0.80 \<le> real_of_int (power_hits (band_env k j) name (Suc 0) n a b) / real_of_int n)\<rparr>, w')"
    and "stdout w' = stdout w @ Calibrating name # size_warnings (band_env k j) name (Suc 0) n a b
             @ [SizeStatus
                  (0.03 \<le> real_of_int (size_hits (band_env k j) name (Suc 0) n a b) / real_of_int n
                    \<and> real_of_int (size_hits (band_env k j) name (Suc 0) n a b) / real_of_int n \<le> 0.10)
                  (0.04 \<le> real_of_int (size_hits (band_env k j) name (Suc 0) n a b) / real_of_int n
                    \<and> real_of_int (size_hits (band_env k j) name (Suc 0) n a b) / real_of_int n \<le> 0.07)]"
    by blast
  then show ?thesis unfolding s p by (intro exI[of _ w']) simp
qed

subsection \<open>What a returned calibration holds\<close>

lemma calibrate_test_result:
  assumes "calibrate_test E name ns n a b w = (Inr r, w')"
  shows "n \<noteq> 0"
    and "test_name r = name" and "nominal_alpha r = a"
    and "empirical_size r = real_of_int (size_hits E name ns n a b) / real_of_int n"
    and "size_calibrated r = (0.03 \<le> empirical_size r \<and> empirical_size r \<le> 0.10)"
    and "power_rate r = real_of_int (power_hits E name ns n a b) / real_of_int n"
    and "power_adequate r = (0.80 \<le> power_rate r)"
    and "seeded w' = seeded w @ map size_seed (py_range n) @ map power_seed (py_range n)"
    and "stdout w' = stdout w @ Calibrating name # size_warnings E name ns n a b
           @ [SizeStatus (size_calibrated r)
                (0.04 \<le> empirical_size r \<and> empirical_size r \<le> 0.07)]"
proof -
  have runs: "calibration_runs E name ns n a b"
    using assms by (rule calibrate_test_Inr_runs)
  from calibrate_test_runs[OF runs, of w] assms
  show "test_name r = name" "nominal_alpha r = a"
    "empirical_size r = real_of_int (size_hits E name ns n a b) / real_of_int n"
    "size_calibrated r = (0.03 \<le> empirical_size r \<and> empirical_size r \<le> 0.10)"
    "power_rate r = real_of_int (power_hits E name ns n a b) / real_of_int n"
    "power_adequate r = (0.80 \<le> power_rate r)"
    "seeded w' = seeded w @ map size_seed (py_range n) @ map power_seed (py_range n)"
    "stdout w' = stdout w @ Calibrating name # size_warnings E name ns n a b
           @ [SizeStatus (size_calibrated r)
                (0.04 \<le> empirical_size r \<and> empirical_size r \<le> 0.07)]"
    by auto
  from runs show "n \<noteq> 0" by (simp add: calibration_runs_def)
qed

lemma size_hits_bounds: "0 \<le> size_hits E name ns n a b \<and> size_hits E name ns n a b \<le> int (nat n)"
  using sum_hit_bounds[of "size_outcome E name ns a b" "py_range n"]
  by (simp add: size_hits_def length_py_range)

lemma power_hits_bounds: "0 \<le> power_hits E name ns n a b \<and> power_hits E name ns n a b \<le> int (nat n)"
  using sum_hit_bounds[of "power_outcome E name ns a b" "py_range n"]
  by (simp add: power_hits_def length_py_range)

lemma size_arm_tally:
  assumes "calibration_runs E name ns n a b"
  shows "fst (snd (size_arm E name ns n a b v)) = size_hits E name ns n a b"
proof -
  from assms have "\<forall>t\<in>set (py_range n). calibration_abort (size_outcome E name ns a b t) = None"
    by (simp add: calibration_runs_def)
  from size_arm_completes[OF this, where w = v] show ?thesis by auto
qed

lemma power_arm_tally:
  assumes "calibration_runs E name ns n a b"
  shows "fst (snd (power_arm E name ns n a b v)) = power_hits E name ns n a b"
proof -
  from assms have "\<forall>t\<in>set (py_range n). calibration_abort (power_outcome E name ns a b t) = None"
    by (simp add: calibration_runs_def)
  from power_arm_completes[OF this, where w = v] show ?thesis by auto
qed

text \<open>
  Claim C2. Whenever \<^verbatim>\<open>calibrate_test\<close> returns a result, its \<open>size_calibrated\<close> flag holds
  exactly when \<open>0.03 \<le> empirical_size \<le> 0.10\<close>, both ends included: a size of \<open>0.10\<close> gives
  true and a size of \<open>0.11\<close> gives false. The band \<open>0.04\<close> to \<open>0.07\<close> is computed and shown in
  the status line, and the flag does not depend on it: a size in the loose band and outside
  the strict one is calibrated. The size is the counter the first loop returns, divided by
  \<open>n_trials\<close>.
\<close>

theorem size_band_decides_flag:
  assumes "calibrate_test E name n_samples n_trials alpha bandwidth w = (Inr r, w')"
  shows "empirical_size r
           = real_of_int (fst (snd (size_arm E name n_samples n_trials alpha bandwidth v)))
               / real_of_int n_trials
       \<and> size_calibrated r = (0.03 \<le> empirical_size r \<and> empirical_size r \<le> 0.10)
       \<and> (empirical_size r = 0.10 \<longrightarrow> size_calibrated r)
       \<and> (empirical_size r = 0.11 \<longrightarrow> \<not> size_calibrated r)
       \<and> (0.07 < empirical_size r \<and> empirical_size r \<le> 0.10 \<longrightarrow> size_calibrated r)
       \<and> (0.03 \<le> empirical_size r \<and> empirical_size r < 0.04 \<longrightarrow> size_calibrated r)
       \<and> last (stdout w') = SizeStatus (size_calibrated r)
                               (0.04 \<le> empirical_size r \<and> empirical_size r \<le> 0.07)"
proof -
  have runs: "calibration_runs E name n_samples n_trials alpha bandwidth"
    using assms by (rule calibrate_test_Inr_runs)
  note res = calibrate_test_result[OF assms]
  have 1: "empirical_size r
           = real_of_int (fst (snd (size_arm E name n_samples n_trials alpha bandwidth v)))
               / real_of_int n_trials"
    by (simp add: res(4) size_arm_tally[OF runs])
  have 2: "size_calibrated r = (0.03 \<le> empirical_size r \<and> empirical_size r \<le> 0.10)"
    by (rule res(5))
  have 3: "last (stdout w') = SizeStatus (size_calibrated r)
                               (0.04 \<le> empirical_size r \<and> empirical_size r \<le> 0.07)"
    by (simp add: res(9))
  from 1 2 3 show ?thesis by simp
qed

theorem size_band_decides_flag_witness:
  "fst (calibrate_test (band_env 100 799) ''white'' 1 1000 0.05 0.1 (blank (band_env 100 799)))
     = Inr \<lparr>test_name = ''white'', nominal_alpha = 0.05, empirical_size = 0.10,
            size_calibrated = True, power_rate = 0.799, power_adequate = False\<rparr>
   \<and> last (stdout (snd (calibrate_test (band_env 100 799) ''white'' 1 1000 0.05 0.1
                           (blank (band_env 100 799)))))
     = SizeStatus True False
   \<and> fst (calibrate_test (band_env 11 80) ''white'' 1 100 0.05 0.1 (blank (band_env 11 80)))
     = Inr \<lparr>test_name = ''white'', nominal_alpha = 0.05, empirical_size = 0.11,
            size_calibrated = False, power_rate = 0.80, power_adequate = True\<rparr>
   \<and> last (stdout (snd (calibrate_test (band_env 11 80) ''white'' 1 100 0.05 0.1
                           (blank (band_env 11 80)))))
     = SizeStatus False False
   \<and> fst (calibrate_test (band_env 5 80) ''white'' 1 100 0.05 0.1 (blank (band_env 5 80)))
     = Inr \<lparr>test_name = ''white'', nominal_alpha = 0.05, empirical_size = 0.05,
            size_calibrated = True, power_rate = 0.80, power_adequate = True\<rparr>
   \<and> last (stdout (snd (calibrate_test (band_env 5 80) ''white'' 1 100 0.05 0.1
                           (blank (band_env 5 80)))))
     = SizeStatus True True"
proof -
  obtain wa where ha: "calibrate_test (band_env 100 799) ''white'' 1 1000 0.05 0.1
      (blank (band_env 100 799)) =
     (Inr \<lparr>test_name = ''white'', nominal_alpha = 0.05, empirical_size = 0.10,
           size_calibrated = True, power_rate = 0.799, power_adequate = False\<rparr>, wa)"
    using band_calibration[of 100 1000 799 "''white''" "0.05" "0.1" "blank (band_env 100 799)"]
    by auto
  obtain wb where hb: "calibrate_test (band_env 11 80) ''white'' 1 100 0.05 0.1
      (blank (band_env 11 80)) =
     (Inr \<lparr>test_name = ''white'', nominal_alpha = 0.05, empirical_size = 0.11,
           size_calibrated = False, power_rate = 0.80, power_adequate = True\<rparr>, wb)"
    using band_calibration[of 11 100 80 "''white''" "0.05" "0.1" "blank (band_env 11 80)"]
    by auto
  obtain wc where hc: "calibrate_test (band_env 5 80) ''white'' 1 100 0.05 0.1
      (blank (band_env 5 80)) =
     (Inr \<lparr>test_name = ''white'', nominal_alpha = 0.05, empirical_size = 0.05,
           size_calibrated = True, power_rate = 0.80, power_adequate = True\<rparr>, wc)"
    using band_calibration[of 5 100 80 "''white''" "0.05" "0.1" "blank (band_env 5 80)"]
    by auto
  from size_band_decides_flag[OF ha] have a: "last (stdout wa) = SizeStatus True False" by simp
  from size_band_decides_flag[OF hb] have b: "last (stdout wb) = SizeStatus False False" by simp
  from size_band_decides_flag[OF hc] have c: "last (stdout wc) = SizeStatus True True" by simp
  from ha hb hc a b c show ?thesis by simp
qed

text \<open>
  Claim C3. Whenever \<^verbatim>\<open>calibrate_test\<close> returns a result, its power is the counter the second
  loop returns, which is the number of trials of the power arm whose test rejected, divided by
  \<open>n_trials\<close>; and \<open>power_adequate\<close> holds exactly when the power is at least \<open>0.80\<close>, the bound
  included: \<open>0.80\<close> gives true and \<open>0.799\<close> gives false.
\<close>

theorem power_threshold:
  assumes "calibrate_test E name n_samples n_trials alpha bandwidth w = (Inr r, w')"
  shows "power_rate r
           = real_of_int (fst (snd (power_arm E name n_samples n_trials alpha bandwidth v)))
               / real_of_int n_trials
       \<and> fst (snd (power_arm E name n_samples n_trials alpha bandwidth v))
           = int (length (filter
               (\<lambda>t. power_outcome E name n_samples alpha bandwidth t = Verdict True)
               (py_range n_trials)))
       \<and> power_adequate r = (0.80 \<le> power_rate r)
       \<and> (power_rate r = 0.80 \<longrightarrow> power_adequate r)
       \<and> (power_rate r = 0.799 \<longrightarrow> \<not> power_adequate r)"
proof -
  have runs: "calibration_runs E name n_samples n_trials alpha bandwidth"
    using assms by (rule calibrate_test_Inr_runs)
  note res = calibrate_test_result[OF assms]
  have 1: "power_rate r
           = real_of_int (fst (snd (power_arm E name n_samples n_trials alpha bandwidth v)))
               / real_of_int n_trials"
    by (simp add: res(6) power_arm_tally[OF runs])
  have 2: "fst (snd (power_arm E name n_samples n_trials alpha bandwidth v))
           = int (length (filter
               (\<lambda>t. power_outcome E name n_samples alpha bandwidth t = Verdict True)
               (py_range n_trials)))"
    by (simp add: power_arm_tally[OF runs] power_hits_def sum_hit_count)
  have 3: "power_adequate r = (0.80 \<le> power_rate r)"
    by (rule res(7))
  from 1 2 3 show ?thesis by simp
qed

theorem power_threshold_witness:
  "fst (calibrate_test (band_env 100 799) ''white'' 1 1000 0.05 0.1 (blank (band_env 100 799)))
     = Inr \<lparr>test_name = ''white'', nominal_alpha = 0.05, empirical_size = 0.10,
            size_calibrated = True, power_rate = 0.799, power_adequate = False\<rparr>
   \<and> fst (snd (power_arm (band_env 100 799) ''white'' 1 1000 0.05 0.1 (blank (band_env 100 799))))
     = 799
   \<and> fst (calibrate_test (band_env 11 80) ''white'' 1 100 0.05 0.1 (blank (band_env 11 80)))
     = Inr \<lparr>test_name = ''white'', nominal_alpha = 0.05, empirical_size = 0.11,
            size_calibrated = False, power_rate = 0.80, power_adequate = True\<rparr>
   \<and> fst (snd (power_arm (band_env 11 80) ''white'' 1 100 0.05 0.1 (blank (band_env 11 80))))
     = 80"
proof -
  obtain wa where ha: "calibrate_test (band_env 100 799) ''white'' 1 1000 0.05 0.1
      (blank (band_env 100 799)) =
     (Inr \<lparr>test_name = ''white'', nominal_alpha = 0.05, empirical_size = 0.10,
           size_calibrated = True, power_rate = 0.799, power_adequate = False\<rparr>, wa)"
    using band_calibration[of 100 1000 799 "''white''" "0.05" "0.1" "blank (band_env 100 799)"]
    by auto
  obtain wb where hb: "calibrate_test (band_env 11 80) ''white'' 1 100 0.05 0.1
      (blank (band_env 11 80)) =
     (Inr \<lparr>test_name = ''white'', nominal_alpha = 0.05, empirical_size = 0.11,
           size_calibrated = False, power_rate = 0.80, power_adequate = True\<rparr>, wb)"
    using band_calibration[of 11 100 80 "''white''" "0.05" "0.1" "blank (band_env 11 80)"]
    by auto
  from power_threshold[OF ha, of "blank (band_env 100 799)"]
  have a: "fst (snd (power_arm (band_env 100 799) ''white'' 1 1000 0.05 0.1
                       (blank (band_env 100 799)))) = 799"
    by simp
  from power_threshold[OF hb, of "blank (band_env 11 80)"]
  have b: "fst (snd (power_arm (band_env 11 80) ''white'' 1 100 0.05 0.1
                       (blank (band_env 11 80)))) = 80"
    by simp
  from ha hb a b show ?thesis by simp
qed

subsection \<open>Seeds of the two arms\<close>

lemma set_size_seeds: "set (map size_seed (py_range n)) = {0..<n}"
  by (simp add: set_py_range size_seed_def)

lemma set_power_seeds: "set (map power_seed (py_range n)) = {100000..<n + 100000}"
proof -
  have "(\<lambda>t. t + 100000) ` {0..<n} = {100000..<n + 100000}"
  proof (intro set_eqI iffI)
    fix x assume "x \<in> (\<lambda>t. t + 100000) ` {0..<n}"
    then show "x \<in> {100000..<n + 100000}" by auto
  next
    fix x :: int assume "x \<in> {100000..<n + 100000}"
    then have "x = (x - 100000) + 100000" and "x - 100000 \<in> {0..<n}" by auto
    then show "x \<in> (\<lambda>t. t + 100000) ` {0..<n}" by (rule image_eqI)
  qed
  then show ?thesis
    by (simp add: set_py_range power_seed_def[abs_def])
qed


lemma seeds_disjoint_iff:
  "(set (map size_seed (py_range n)) \<inter> set (map power_seed (py_range n)) = {})
     = (n \<le> 100000)"
proof -
  have "({0..<n} \<inter> {100000..<n + 100000} = {}) = (n \<le> 100000)"
  proof
    assume d: "{0..<n} \<inter> {100000..<n + 100000} = {}"
    show "n \<le> 100000"
    proof (rule ccontr)
      assume "\<not> n \<le> 100000"
      then have "(100000::int) \<in> {0..<n} \<inter> {100000..<n + 100000}" by simp
      with d show False by blast
    qed
  next
    assume "n \<le> 100000"
    then show "{0..<n} \<inter> {100000..<n + 100000} = {}" by auto
  qed
  then show ?thesis by (simp only: set_size_seeds set_power_seeds)
qed

lemma seeds_distinct_iff:
  "distinct (map size_seed (py_range n) @ map power_seed (py_range n)) = (n \<le> 100000)"
proof -
  have a: "distinct (map size_seed (py_range n))"
    by (simp add: distinct_map distinct_py_range inj_on_def size_seed_def)
  have b: "distinct (map power_seed (py_range n))"
    by (simp add: distinct_map distinct_py_range inj_on_def power_seed_def)
  show ?thesis
    using a b seeds_disjoint_iff[of n] by (simp only: distinct_append) simp
qed

text \<open>
  Claim C8, as amended. Within one call of \<^verbatim>\<open>calibrate_test\<close> the size arm seeds trial \<open>t\<close>
  with \<open>t\<close> and the power arm seeds it with \<open>t + 100000\<close>. The seeds of the two arms are
  disjoint, and no seed is installed twice in the call, exactly when \<open>n_trials \<le> 100000\<close>;
  a call that returns has installed the seeds of the size arm followed by those of the power
  arm.
\<close>

theorem arm_seeds_disjoint_iff:
  "(size_seed t = t \<and> power_seed t = t + 100000)
   \<and> (set (map size_seed (py_range n_trials)) \<inter> set (map power_seed (py_range n_trials)) = {})
       = (n_trials \<le> 100000)
   \<and> (calibrate_test E name n_samples n_trials alpha bandwidth w = (Inr r, w') \<longrightarrow>
        seeded w' = seeded w @ map size_seed (py_range n_trials)
                             @ map power_seed (py_range n_trials)
        \<and> distinct (map size_seed (py_range n_trials) @ map power_seed (py_range n_trials))
            = (n_trials \<le> 100000))"
proof -
  have 1: "size_seed t = t \<and> power_seed t = t + 100000"
    by (simp add: size_seed_def power_seed_def)
  have 2: "calibrate_test E name n_samples n_trials alpha bandwidth w = (Inr r, w') \<longrightarrow>
        seeded w' = seeded w @ map size_seed (py_range n_trials)
                             @ map power_seed (py_range n_trials)"
    using calibrate_test_result(8)[of E name n_samples n_trials alpha bandwidth w r w']
    by blast
  from 1 2 seeds_disjoint_iff[of n_trials] seeds_distinct_iff[of n_trials]
  show ?thesis by blast
qed

theorem arm_seeds_disjoint_iff_witness:
  "fst (calibrate_test demo_env ''white'' 1 10 0.05 0.1 (blank demo_env))
     = Inr \<lparr>test_name = ''white'', nominal_alpha = 0.05, empirical_size = 0.10,
            size_calibrated = True, power_rate = 0.80, power_adequate = True\<rparr>
   \<and> seeded (snd (calibrate_test demo_env ''white'' 1 10 0.05 0.1 (blank demo_env)))
     = [0, 1, 2, 3, 4, 5, 6, 7, 8, 9,
        100000, 100001, 100002, 100003, 100004, 100005, 100006, 100007, 100008, 100009]
   \<and> set (map size_seed (py_range 10)) \<inter> set (map power_seed (py_range 10)) = {}"
proof -
  obtain w' where h: "calibrate_test demo_env ''white'' 1 10 0.05 0.1 (blank demo_env) =
     (Inr \<lparr>test_name = ''white'', nominal_alpha = 0.05, empirical_size = 0.10,
           size_calibrated = True, power_rate = 0.80, power_adequate = True\<rparr>, w')"
    using demo_calibration[of "''white''" "0.05" "0.1" "blank demo_env"] by auto
  from arm_seeds_disjoint_iff[of 0 10 demo_env "''white''" 1 "0.05" "0.1" "blank demo_env" _ w'] h
  show ?thesis
    by (simp add: py_range_10 size_seed_def power_seed_def blank_def)
qed

text \<open>
  The claim as it was stated fails: with \<open>n_trials = 100001\<close> the last trial of the size arm
  and the first trial of the power arm both install the seed \<open>100000\<close>.
\<close>

theorem arm_seeds_overlap:
  "size_seed 100000 = power_seed 0
   \<and> 100000 \<in> set (py_range 100001) \<and> 0 \<in> set (py_range 100001)
   \<and> set (map size_seed (py_range 100001)) \<inter> set (map power_seed (py_range 100001)) \<noteq> {}"
proof -
  have "set (map size_seed (py_range 100001)) \<inter> set (map power_seed (py_range 100001)) \<noteq> {}"
    using seeds_disjoint_iff[of 100001] by simp
  then show ?thesis by (simp add: set_py_range size_seed_def power_seed_def)
qed

subsection \<open>The sweep\<close>

lemma sweep_loop_None_iff:
  "fst (for_each (sweep_trial E name ns a b s) (py_range n) (0, w)) = None \<longleftrightarrow>
     (\<forall>t\<in>set (py_range n). sweep_abort (sweep_outcome E name ns a b s t) = None)"
  by (rule for_each_None_iff) (rule sweep_trial_step)

lemma sweep_loop_completes:
  assumes "\<forall>t\<in>set (py_range n). sweep_abort (sweep_outcome E name ns a b s t) = None"
  shows "\<exists>w'. for_each (sweep_trial E name ns a b s) (py_range n) (0, w)
                 = (None, (sweep_hits E name ns n a b s, w'))
           \<and> seeded w' = seeded w @ py_range n
           \<and> stdout w' = stdout w"
  unfolding sweep_hits_def
  by (subst for_each_completes[OF sweep_trial_step assms])
     (simp add: fold_seed_seeded fold_seed_stdout)

lemma sweep_point_None:
  assumes "sweep_point E name ns n a b s w = (None, w')"
  shows "n \<noteq> 0"
    and "\<forall>t\<in>set (py_range n). sweep_abort (sweep_outcome E name ns a b s t) = None"
    and "stdout w' = stdout w @ [CurveRow s (real_of_int (sweep_hits E name ns n a b s) / real_of_int n)]"
    and "seeded w' = seeded w @ py_range n"
proof -
  obtain r1 d w1 where l: "for_each (sweep_trial E name ns a b s) (py_range n) (0, w) = (r1, (d, w1))"
    by (metis prod_cases3)
  from assms l have r1: "r1 = None"
    by (cases r1) (simp_all add: sweep_point_def)
  from assms l r1 show n0: "n \<noteq> 0"
    by (auto simp: sweep_point_def rate_of_def)
  from l r1 have "fst (for_each (sweep_trial E name ns a b s) (py_range n) (0, w)) = None" by simp
  then show ok: "\<forall>t\<in>set (py_range n). sweep_abort (sweep_outcome E name ns a b s t) = None"
    by (simp only: sweep_loop_None_iff)
  from sweep_loop_completes[OF ok, where w = w] l
  have d: "d = sweep_hits E name ns n a b s" and w1: "seeded w1 = seeded w @ py_range n"
    "stdout w1 = stdout w" by auto
  from assms l r1 n0 have "w' = w1\<lparr>stdout := stdout w1 @ [CurveRow s (real_of_int d / real_of_int n)]\<rparr>"
    by (simp add: sweep_point_def rate_of_def)
  with d w1 show "stdout w' = stdout w @ [CurveRow s (real_of_int (sweep_hits E name ns n a b s) / real_of_int n)]"
    and "seeded w' = seeded w @ py_range n" by simp_all
qed

lemma sweep_point_completes:
  assumes "n \<noteq> 0"
      and "\<forall>t\<in>set (py_range n). sweep_abort (sweep_outcome E name ns a b s t) = None"
  shows "\<exists>w'. sweep_point E name ns n a b s w = (None, w')"
proof -
  from sweep_loop_completes[OF assms(2), where w = w]
  obtain w1 where "for_each (sweep_trial E name ns a b s) (py_range n) (0, w)
                 = (None, (sweep_hits E name ns n a b s, w1))" by auto
  with assms(1) show ?thesis by (simp add: sweep_point_def rate_of_def)
qed

lemma sweep_point_aborts:
  assumes "\<exists>t\<in>set (py_range n). sweep_abort (sweep_outcome E name ns a b s t) \<noteq> None"
  shows "\<exists>e w'. sweep_point E name ns n a b s w = (Some e, w')"
proof -
  obtain r w' where p: "sweep_point E name ns n a b s w = (r, w')" by (cases "sweep_point E name ns n a b s w")
  show ?thesis
  proof (cases r)
    case None
    with p have "sweep_point E name ns n a b s w = (None, w')" by simp
    from sweep_point_None(2)[OF this] assms have False by simp
    then show ?thesis ..
  next
    case (Some e)
    with p show ?thesis by blast
  qed
qed

lemma sweep_zero_outcome: "sweep_outcome E name ns a b 0 t = size_outcome E name ns a b t"
  by (simp add: sweep_outcome_def size_outcome_def size_seed_def)

lemma sweep_zero_hits: "sweep_hits E name ns n a b 0 = size_hits E name ns n a b"
  by (simp add: sweep_hits_def size_hits_def sweep_zero_outcome)

lemma py_range_1: "py_range 1 = [0]"
  by (simp add: py_range_def)

subsection \<open>Faults\<close>

lemma for_each_first_abort:
  fixes body :: "'a \<Rightarrow> int \<times> 'w \<Rightarrow> fault option \<times> (int \<times> 'w)"
  assumes body: "\<And>t c w. body t (c, w) = (ab t, (c + inc t, upd t w))"
  shows "fst (for_each body ts (c, w)) =
           (case find (\<lambda>t. ab t \<noteq> None) ts of None \<Rightarrow> None | Some t \<Rightarrow> ab t)"
proof (induction ts arbitrary: c w)
  case Nil
  show ?case by simp
next
  case (Cons t ts)
  show ?case by (cases "ab t") (simp_all add: body Cons.IH)
qed

lemma sweep_point_first_abort:
  assumes "find (\<lambda>t. sweep_abort (sweep_outcome E name ns a b s t) \<noteq> None) (py_range n) = Some t"
  shows "fst (sweep_point E name ns n a b s w) = sweep_abort (sweep_outcome E name ns a b s t)"
proof -
  have ne: "sweep_abort (sweep_outcome E name ns a b s t) \<noteq> None"
    using assms by (auto simp: find_Some_iff)
  have "fst (for_each (sweep_trial E name ns a b s) (py_range n) (0, w))
          = sweep_abort (sweep_outcome E name ns a b s t)"
    by (subst for_each_first_abort[of _ "\<lambda>t. sweep_abort (sweep_outcome E name ns a b s t)", OF sweep_trial_step])
       (simp only: assms option.simps)
  with ne show ?thesis
    by (auto simp: sweep_point_def split: prod.splits option.splits)
qed

lemma for_each_some_aborts:
  assumes "\<exists>x\<in>set xs. \<forall>s. fst (body x s) \<noteq> None"
  shows "fst (for_each body xs s) \<noteq> None"
  using assms
proof (induction xs arbitrary: s)
  case Nil
  then show ?case by simp
next
  case (Cons x xs)
  obtain r s1 where b: "body x s = (r, s1)" by (cases "body x s")
  show ?case
  proof (cases r)
    case (Some e)
    with b show ?thesis by simp
  next
    case None
    with b Cons.prems have "\<exists>y\<in>set xs. \<forall>s. fst (body y s) \<noteq> None"
      by (metis fst_conv set_ConsD)
    from Cons.IH[OF this] b None show ?thesis by simp
  qed
qed

lemma power_curve_aborts:
  assumes "\<exists>s\<in>set strengths. \<exists>t\<in>set (py_range 200).
             sweep_abort (sweep_outcome E name 200 0.05 0.1 s t) \<noteq> None"
  shows "\<exists>e. fst (power_curve E name w) = Some e"
proof -
  from assms obtain s where s: "s \<in> set strengths"
    and t: "\<exists>t\<in>set (py_range 200). sweep_abort (sweep_outcome E name 200 0.05 0.1 s t) \<noteq> None"
    by blast
  have "\<forall>v. fst (sweep_point E name 200 200 0.05 0.1 s v) \<noteq> None"
  proof
    fix v
    from sweep_point_aborts[OF t, where w = v] show "fst (sweep_point E name 200 200 0.05 0.1 s v) \<noteq> None"
      by auto
  qed
  with s have "\<exists>x\<in>set strengths. \<forall>v. fst (sweep_point E name 200 200 0.05 0.1 x v) \<noteq> None"
    by blast
  from for_each_some_aborts[OF this, of w] show ?thesis
    by (simp add: power_curve_def)
qed

lemma calibrate_test_aborts:
  assumes "\<not> calibration_runs E name ns n a b"
  shows "\<exists>e. fst (calibrate_test E name ns n a b w) = Inl e"
proof (cases "fst (calibrate_test E name ns n a b w)")
  case (Inl e)
  then show ?thesis by blast
next
  case (Inr r)
  then have "calibrate_test E name ns n a b w = (Inr r, snd (calibrate_test E name ns n a b w))"
    by (simp add: prod_eq_iff)
  from calibrate_test_Inr_runs[OF this] assms show ?thesis by simp
qed

text \<open>
  Claim C5, as amended. In each loop of \<^verbatim>\<open>calibrate_test\<close> the \<^verbatim>\<open>try\<close> encloses the test
  only, and it catches an \<^verbatim>\<open>Exception\<close>. If in no trial of an arm the fit raises or the test
  raises something that is not an \<^verbatim>\<open>Exception\<close>, the arm runs all its trials and its counter
  is the number of trials whose test rejected, so that a trial whose test raised counts as a
  non-rejection; in the size arm the console receives, for exactly the trials whose test
  raised and in their order, a warning with the trial index and the message. If the fit
  raises in a trial of either arm, \<^verbatim>\<open>calibrate_test\<close> raises and returns no result. In
  \<^verbatim>\<open>power_curve\<close> nothing is caught: the loop of a strength raises the fault of the first trial
  whose fit or test raises, and then \<^verbatim>\<open>power_curve\<close> raises.
\<close>

theorem failure_policies:
  "((\<forall>t\<in>set (py_range n). calibration_abort (size_outcome E name ns a b t) = None) \<longrightarrow>
      (\<exists>w'. size_arm E name ns n a b w
               = (None, (int (length (filter (\<lambda>t. size_outcome E name ns a b t = Verdict True)
                                       (py_range n))), w'))
          \<and> stdout w' = stdout w
               @ concat (map (\<lambda>t. warning_of t (size_outcome E name ns a b t)) (py_range n))))
   \<and> ((\<forall>t\<in>set (py_range n). calibration_abort (power_outcome E name ns a b t) = None) \<longrightarrow>
      (\<exists>w'. power_arm E name ns n a b w
               = (None, (int (length (filter (\<lambda>t. power_outcome E name ns a b t = Verdict True)
                                       (py_range n))), w'))))
   \<and> ((\<exists>t\<in>set (py_range n). \<exists>e. size_outcome E name ns a b t = FitRaised e
                                  \<or> power_outcome E name ns a b t = FitRaised e) \<longrightarrow>
      (\<exists>e. fst (calibrate_test E name ns n a b w) = Inl e))
   \<and> (find (\<lambda>t. sweep_abort (sweep_outcome E name ns a b s t) \<noteq> None) (py_range n) = Some t \<longrightarrow>
      fst (sweep_point E name ns n a b s w) = sweep_abort (sweep_outcome E name ns a b s t))
   \<and> ((\<exists>s\<in>set strengths. \<exists>t\<in>set (py_range 200).
          sweep_abort (sweep_outcome E name 200 0.05 0.1 s t) \<noteq> None) \<longrightarrow>
      (\<exists>e. fst (power_curve E name w) = Some e))"
proof -
  have 1: "(\<forall>t\<in>set (py_range n). calibration_abort (size_outcome E name ns a b t) = None) \<longrightarrow>
      (\<exists>w'. size_arm E name ns n a b w
               = (None, (int (length (filter (\<lambda>t. size_outcome E name ns a b t = Verdict True)
                                       (py_range n))), w'))
          \<and> stdout w' = stdout w
               @ concat (map (\<lambda>t. warning_of t (size_outcome E name ns a b t)) (py_range n)))"
  proof
    assume ok: "\<forall>t\<in>set (py_range n). calibration_abort (size_outcome E name ns a b t) = None"
    from size_arm_completes[OF ok, where w = w]
    show "\<exists>w'. size_arm E name ns n a b w
               = (None, (int (length (filter (\<lambda>t. size_outcome E name ns a b t = Verdict True)
                                       (py_range n))), w'))
          \<and> stdout w' = stdout w
               @ concat (map (\<lambda>t. warning_of t (size_outcome E name ns a b t)) (py_range n))"
      by (auto simp: size_hits_def sum_hit_count)
  qed
  have 2: "(\<forall>t\<in>set (py_range n). calibration_abort (power_outcome E name ns a b t) = None) \<longrightarrow>
      (\<exists>w'. power_arm E name ns n a b w
               = (None, (int (length (filter (\<lambda>t. power_outcome E name ns a b t = Verdict True)
                                       (py_range n))), w')))"
  proof
    assume ok: "\<forall>t\<in>set (py_range n). calibration_abort (power_outcome E name ns a b t) = None"
    from power_arm_completes[OF ok, where w = w]
    show "\<exists>w'. power_arm E name ns n a b w
               = (None, (int (length (filter (\<lambda>t. power_outcome E name ns a b t = Verdict True)
                                       (py_range n))), w'))"
      by (auto simp: power_hits_def sum_hit_count)
  qed
  have 3: "(\<exists>t\<in>set (py_range n). \<exists>e. size_outcome E name ns a b t = FitRaised e
                                  \<or> power_outcome E name ns a b t = FitRaised e) \<longrightarrow>
      (\<exists>e. fst (calibrate_test E name ns n a b w) = Inl e)"
  proof
    assume "\<exists>t\<in>set (py_range n). \<exists>e. size_outcome E name ns a b t = FitRaised e
                                  \<or> power_outcome E name ns a b t = FitRaised e"
    then obtain t e where t: "t \<in> set (py_range n)"
      and f: "size_outcome E name ns a b t = FitRaised e
              \<or> power_outcome E name ns a b t = FitRaised e" by blast
    from f have "calibration_abort (size_outcome E name ns a b t) \<noteq> None
                 \<or> calibration_abort (power_outcome E name ns a b t) \<noteq> None" by auto
    with t have "\<not> calibration_runs E name ns n a b"
      by (auto simp: calibration_runs_def)
    then show "\<exists>e. fst (calibrate_test E name ns n a b w) = Inl e"
      by (rule calibrate_test_aborts)
  qed
  have 4: "find (\<lambda>t. sweep_abort (sweep_outcome E name ns a b s t) \<noteq> None) (py_range n) = Some t \<longrightarrow>
      fst (sweep_point E name ns n a b s w) = sweep_abort (sweep_outcome E name ns a b s t)"
    using sweep_point_first_abort[of E name ns a b s n t w] by blast
  have 5: "(\<exists>s\<in>set strengths. \<exists>t\<in>set (py_range 200).
          sweep_abort (sweep_outcome E name 200 0.05 0.1 s t) \<noteq> None) \<longrightarrow>
      (\<exists>e. fst (power_curve E name w) = Some e)"
    using power_curve_aborts[of E name w] by blast
  from 1 2 3 4 5 show ?thesis by blast
qed

lemma fit_fails_outcomes:
  "size_outcome fit_fails_env name ns a b t = FitRaised (Exc ''singular'')"
  "power_outcome fit_fails_env name ns a b t = FitRaised (Exc ''singular'')"
  "sweep_outcome fit_fails_env name ns a b s t = FitRaised (Exc ''singular'')"
  by (simp_all add: size_outcome_def power_outcome_def sweep_outcome_def trial_outcome_def
      fit_fails_env_def demo_env_def)

lemma test_fails_outcomes:
  "size_outcome test_fails_env name ns a b t = TestRaised (Exc ''boom'')"
  "power_outcome test_fails_env name ns a b t = TestRaised (Exc ''boom'')"
  by (simp_all add: size_outcome_def power_outcome_def trial_outcome_def
      test_fails_env_def demo_env_def)

lemma fit_fails_calibration:
  "calibrate_test fit_fails_env name ns 1 a b w =
     (Inl (Exc ''singular''),
      w\<lparr>rng := rng_after fit_fails_env ns 0, seeded := seeded w @ [0],
        stdout := stdout w @ [Calibrating name]\<rparr>)"
  by (simp add: calibrate_test_def size_arm_def py_range_1 size_trial_step fit_fails_outcomes
      size_seed_def)

lemma test_fails_calibration:
  "\<exists>w'. calibrate_test test_fails_env name ns 1 a b w =
     (Inr \<lparr>test_name = name, nominal_alpha = a, empirical_size = 0, size_calibrated = False,
           power_rate = 0, power_adequate = False\<rparr>, w')
     \<and> stdout w' = stdout w @ [Calibrating name, TrialWarning 0 ''boom'', SizeStatus False False]"
proof -
  have runs: "calibration_runs test_fails_env name ns 1 a b"
    by (simp add: calibration_runs_def py_range_1 test_fails_outcomes)
  have s: "size_hits test_fails_env name ns 1 a b = 0"
    by (simp add: size_hits_def py_range_1 test_fails_outcomes hit_def)
  have p: "power_hits test_fails_env name ns 1 a b = 0"
    by (simp add: power_hits_def py_range_1 test_fails_outcomes hit_def)
  have v: "size_warnings test_fails_env name ns 1 a b = [TrialWarning 0 ''boom'']"
    by (simp add: size_warnings_def py_range_1 test_fails_outcomes)
  from calibrate_test_runs[OF runs, of w] show ?thesis
    by (auto simp add: s p v)
qed

theorem failure_policies_witness:
  "size_arm demo_env ''white'' 1 10 0.05 0.1 (blank demo_env)
     = (None, (1, snd (snd (size_arm demo_env ''white'' 1 10 0.05 0.1 (blank demo_env)))))
   \<and> stdout (snd (snd (size_arm demo_env ''white'' 1 10 0.05 0.1 (blank demo_env))))
     = [TrialWarning 1 ''singular'']
   \<and> power_outcome test_fails_env ''white'' 1 0.05 0.1 0 = TestRaised (Exc ''boom'')
   \<and> power_arm test_fails_env ''white'' 1 1 0.05 0.1 (blank test_fails_env)
     = (None, (0, snd (snd (power_arm test_fails_env ''white'' 1 1 0.05 0.1 (blank test_fails_env)))))
   \<and> size_outcome fit_fails_env ''white'' 1 0.05 0.1 0 = FitRaised (Exc ''singular'')
   \<and> (\<exists>e. fst (calibrate_test fit_fails_env ''white'' 1 1 0.05 0.1 (blank fit_fails_env)) = Inl e)
   \<and> fst (sweep_point demo_env ''white'' 1 10 0.05 0.1 0 (blank demo_env))
     = Some (Exc ''singular'')
   \<and> (\<exists>e. fst (power_curve fit_fails_env ''white'' (blank fit_fails_env)) = Some e)"
proof -
  have a: "\<forall>t\<in>set (py_range 10). calibration_abort (size_outcome demo_env ''white'' 1 0.05 0.1 t) = None"
    by (simp add: py_range_10 demo_size_outcome)
  have b: "\<forall>t\<in>set (py_range 1). calibration_abort (power_outcome test_fails_env ''white'' 1 0.05 0.1 t) = None"
    by (simp add: py_range_1 test_fails_outcomes)
  have c: "\<exists>t\<in>set (py_range 1). \<exists>e. size_outcome fit_fails_env ''white'' 1 0.05 0.1 t = FitRaised e
            \<or> power_outcome fit_fails_env ''white'' 1 0.05 0.1 t = FitRaised e"
    by (simp add: py_range_1 fit_fails_outcomes)
  have d: "find (\<lambda>t. sweep_abort (sweep_outcome demo_env ''white'' 1 0.05 0.1 0 t) \<noteq> None)
             (py_range 10) = Some 1"
    by (simp add: py_range_10 sweep_zero_outcome demo_size_outcome)
  have e: "\<exists>s\<in>set strengths. \<exists>t\<in>set (py_range 200).
             sweep_abort (sweep_outcome fit_fails_env ''white'' 200 0.05 0.1 s t) \<noteq> None"
  proof -
    have "(0::real) \<in> set strengths" by (simp add: strengths_def)
    moreover have "(0::int) \<in> set (py_range 200)" by (simp add: set_py_range)
    ultimately show ?thesis by (auto simp: fit_fails_outcomes)
  qed
  note P1 = failure_policies[of 10 demo_env "''white''" 1 "0.05" "0.1" "blank demo_env" 0 1]
  note P2 = failure_policies[of 1 test_fails_env "''white''" 1 "0.05" "0.1" "blank test_fails_env"]
  note P3 = failure_policies[of 1 fit_fails_env "''white''" 1 "0.05" "0.1" "blank fit_fails_env"]
  from P1[THEN conjunct1, THEN mp, OF a]
  obtain w1 where "size_arm demo_env ''white'' 1 10 0.05 0.1 (blank demo_env)
      = (None, (int (length (filter (\<lambda>t. size_outcome demo_env ''white'' 1 0.05 0.1 t = Verdict True)
                                       (py_range 10))), w1))"
    and "stdout w1 = stdout (blank demo_env)
       @ concat (map (\<lambda>t. warning_of t (size_outcome demo_env ''white'' 1 0.05 0.1 t)) (py_range 10))"
    by blast
  then have 1: "size_arm demo_env ''white'' 1 10 0.05 0.1 (blank demo_env)
     = (None, (1, snd (snd (size_arm demo_env ''white'' 1 10 0.05 0.1 (blank demo_env)))))
   \<and> stdout (snd (snd (size_arm demo_env ''white'' 1 10 0.05 0.1 (blank demo_env))))
     = [TrialWarning 1 ''singular'']"
    by (simp add: py_range_10 demo_size_outcome blank_def)
  from P2[THEN conjunct2, THEN conjunct1, THEN mp, OF b]
  obtain w2 where "power_arm test_fails_env ''white'' 1 1 0.05 0.1 (blank test_fails_env)
      = (None, (int (length (filter (\<lambda>t. power_outcome test_fails_env ''white'' 1 0.05 0.1 t = Verdict True)
                                       (py_range 1))), w2))"
    by blast
  then have 2: "power_arm test_fails_env ''white'' 1 1 0.05 0.1 (blank test_fails_env)
     = (None, (0, snd (snd (power_arm test_fails_env ''white'' 1 1 0.05 0.1 (blank test_fails_env)))))"
    by (simp add: py_range_1 test_fails_outcomes)
  have 3: "\<exists>e. fst (calibrate_test fit_fails_env ''white'' 1 1 0.05 0.1 (blank fit_fails_env)) = Inl e"
    by (rule P3[THEN conjunct2, THEN conjunct2, THEN conjunct1, THEN mp, OF c])
  have "fst (sweep_point demo_env ''white'' 1 10 0.05 0.1 0 (blank demo_env))
     = sweep_abort (sweep_outcome demo_env ''white'' 1 0.05 0.1 0 1)"
    by (rule P1[THEN conjunct2, THEN conjunct2, THEN conjunct2, THEN conjunct1, THEN mp, OF d])
  then have 4: "fst (sweep_point demo_env ''white'' 1 10 0.05 0.1 0 (blank demo_env))
     = Some (Exc ''singular'')"
    by (simp add: sweep_zero_outcome demo_size_outcome)
  have 5: "\<exists>e. fst (power_curve fit_fails_env ''white'' (blank fit_fails_env)) = Some e"
    by (rule P3[THEN conjunct2, THEN conjunct2, THEN conjunct2, THEN conjunct2, THEN mp, OF e])
  from 1 2 3 4 5 show ?thesis
    by (simp add: test_fails_outcomes fit_fails_outcomes)
qed

text \<open>
  The claim as it was stated fails on two counts. A fit that raises is not caught: the call
  below raises in the first trial of the size arm and returns no result, and nothing but the
  banner has been printed. And the power arm prints no diagnostic: in the second call the
  test raises in the one trial of each arm, and the console holds the warning of the size arm
  only.
\<close>

theorem fit_fault_escapes:
  "fst (calibrate_test fit_fails_env ''white'' 1 1 0.05 0.1 (blank fit_fails_env))
     = Inl (Exc ''singular'')
   \<and> stdout (snd (calibrate_test fit_fails_env ''white'' 1 1 0.05 0.1 (blank fit_fails_env)))
     = [Calibrating ''white'']
   \<and> power_outcome test_fails_env ''white'' 1 0.05 0.1 0 = TestRaised (Exc ''boom'')
   \<and> stdout (snd (calibrate_test test_fails_env ''white'' 1 1 0.05 0.1 (blank test_fails_env)))
     = [Calibrating ''white'', TrialWarning 0 ''boom'', SizeStatus False False]"
proof -
  have 1: "fst (calibrate_test fit_fails_env ''white'' 1 1 0.05 0.1 (blank fit_fails_env))
     = Inl (Exc ''singular'')
   \<and> stdout (snd (calibrate_test fit_fails_env ''white'' 1 1 0.05 0.1 (blank fit_fails_env)))
     = [Calibrating ''white'']"
    by (simp add: fit_fails_calibration blank_def)
  have 2: "stdout (snd (calibrate_test test_fails_env ''white'' 1 1 0.05 0.1 (blank test_fails_env)))
     = [Calibrating ''white'', TrialWarning 0 ''boom'', SizeStatus False False]"
    using test_fails_calibration[of "''white''" 1 "0.05" "0.1" "blank test_fails_env"]
    by (auto simp: blank_def)
  from 1 2 show ?thesis by (simp add: test_fails_outcomes)
qed

subsection \<open>The suite and its banners\<close>

lemma banners_append: "banners (xs @ ys) = banners xs @ banners ys"
  by (simp add: banners_def)

lemma banners_warning: "banners (warning_of t oc) = []"
  by (cases "(t, oc)" rule: warning_of.cases) (simp_all add: banners_def)

lemma banners_analysis: "banners (analysis rs) = []"
proof -
  have "banners (map Oversized xs) = []" for xs
    by (induction xs) (simp_all add: banners_def)
  then show ?thesis
    by (simp add: analysis_def banners_def split: list.splits)
qed

lemma for_each_invariant:
  assumes step: "\<And>x s. P s \<Longrightarrow> P (snd (body x s))"
      and init: "P s"
  shows "P (snd (for_each body xs s))"
  using init
proof (induction xs arbitrary: s)
  case Nil
  then show ?case by simp
next
  case (Cons x xs)
  obtain r s1 where b: "body x s = (r, s1)" by (cases "body x s")
  from step[OF Cons.prems, of x] b have p: "P s1" by simp
  show ?case
  proof (cases r)
    case None
    with b Cons.IH[OF p] show ?thesis by simp
  next
    case (Some e)
    with b p show ?thesis by simp
  qed
qed

lemma size_arm_banners:
  fixes w :: "'g world"
  shows "banners (stdout (snd (snd (size_arm E name ns n a b w)))) = banners (stdout w)"
proof -
  have "(\<lambda>s. banners (stdout (snd s)) = banners (stdout w))
          (snd (for_each (size_trial E name ns a b) (py_range n) (0, w)))"
  proof (rule for_each_invariant)
    fix t and s :: "int \<times> 'g world"
    assume "banners (stdout (snd s)) = banners (stdout w)"
    then show "banners (stdout (snd (snd (size_trial E name ns a b t s)))) = banners (stdout w)"
      by (cases s) (simp add: size_trial_step banners_append banners_warning)
  next
    show "banners (stdout (snd (0::int, w))) = banners (stdout w)" by simp
  qed
  then show ?thesis by (simp add: size_arm_def)
qed

lemma power_arm_banners:
  fixes w :: "'g world"
  shows "banners (stdout (snd (snd (power_arm E name ns n a b w)))) = banners (stdout w)"
proof -
  have "(\<lambda>s. banners (stdout (snd s)) = banners (stdout w))
          (snd (for_each (power_trial E name ns a b) (py_range n) (0, w)))"
  proof (rule for_each_invariant)
    fix t and s :: "int \<times> 'g world"
    assume "banners (stdout (snd s)) = banners (stdout w)"
    then show "banners (stdout (snd (snd (power_trial E name ns a b t s)))) = banners (stdout w)"
      by (cases s) (simp add: power_trial_step)
  next
    show "banners (stdout (snd (0::int, w))) = banners (stdout w)" by simp
  qed
  then show ?thesis by (simp add: power_arm_def)
qed

lemma calibrate_test_banners:
  "banners (stdout (snd (calibrate_test E name ns n a b w))) = banners (stdout w) @ [name]"
proof -
  let ?w0 = "w\<lparr>stdout := stdout w @ [Calibrating name]\<rparr>"
  have w0: "banners (stdout ?w0) = banners (stdout w) @ [name]"
    by (simp add: banners_def)
  obtain r1 fp w1 where s: "size_arm E name ns n a b ?w0 = (r1, (fp, w1))"
    by (metis prod_cases3)
  from size_arm_banners[of E name ns n a b ?w0] s w0
  have w1: "banners (stdout w1) = banners (stdout w) @ [name]" by simp
  show ?thesis
  proof (cases r1)
    case (Some e)
    with s w1 show ?thesis by (simp add: calibrate_test_def Let_def)
  next
    case None
    show ?thesis
    proof (cases "n = 0")
      case True
      with None s w1 show ?thesis by (simp add: calibrate_test_def Let_def rate_of_def)
    next
      case False
      let ?sz = "real_of_int fp / real_of_int n"
      let ?w2 = "w1\<lparr>stdout := stdout w1 @ [SizeStatus (0.03 \<le> ?sz \<and> ?sz \<le> 0.10) (0.04 \<le> ?sz \<and> ?sz \<le> 0.07)]\<rparr>"
      have w2: "banners (stdout ?w2) = banners (stdout w) @ [name]"
        using w1 by (simp add: banners_def)
      obtain r2 tp w3 where p: "power_arm E name ns n a b ?w2 = (r2, (tp, w3))"
        by (metis prod_cases3)
      from power_arm_banners[of E name ns n a b ?w2] p w2
      have w3: "banners (stdout w3) = banners (stdout w) @ [name]" by simp
      from None s False p w3 show ?thesis
        by (cases r2) (simp_all add: calibrate_test_def Let_def rate_of_def)
    qed
  qed
qed

lemma suite_step_pair:
  "suite_step E name (res, w) =
     (case calibrate_test E name 200 500 0.05 0.1 w of
        (Inl e, w1) \<Rightarrow> (Some e, (res, w1))
      | (Inr result, w1) \<Rightarrow> (None, (res @ [result], w1)))"
  by (simp add: suite_step_def)

lemma suite_loop:
  assumes "for_each (suite_step E) ts (res, w) = (r, (res', w'))"
  shows "\<exists>k\<le>length ts. banners (stdout w') = banners (stdout w) @ take k ts
           \<and> (r = None \<longrightarrow> k = length ts \<and> map test_name res' = map test_name res @ ts)"
  using assms
proof (induction ts arbitrary: res w)
  case Nil
  then show ?case by simp
next
  case (Cons name ts)
  obtain c w1 where ct: "calibrate_test E name 200 500 0.05 0.1 w = (c, w1)"
    by (cases "calibrate_test E name 200 500 0.05 0.1 w")
  from calibrate_test_banners[of E name 200 500 "0.05" "0.1" w] ct
  have b1: "banners (stdout w1) = banners (stdout w) @ [name]" by simp
  show ?case
  proof (cases c)
    case (Inl e)
    with ct Cons.prems have "r = Some e" "w' = w1"
      by (simp_all add: suite_step_pair)
    with b1 have "(1::nat) \<le> length (name # ts)
        \<and> banners (stdout w') = banners (stdout w) @ take 1 (name # ts)
        \<and> (r = None \<longrightarrow> 1 = length (name # ts)
              \<and> map test_name res' = map test_name res @ name # ts)"
      by simp
    then show ?thesis by blast
  next
    case (Inr result)
    with ct have tn: "test_name result = name"
      using calibrate_test_result(2)[of E name 200 500 "0.05" "0.1" w result w1] by simp
    from Inr ct Cons.prems
    have "for_each (suite_step E) ts (res @ [result], w1) = (r, (res', w'))"
      by (simp add: suite_step_pair)
    from Cons.IH[OF this] obtain k where k: "k \<le> length ts"
      "banners (stdout w') = banners (stdout w1) @ take k ts"
      "r = None \<longrightarrow> k = length ts \<and> map test_name res' = map test_name (res @ [result]) @ ts"
      by blast
    from k b1 tn have "Suc k \<le> length (name # ts)
      \<and> banners (stdout w') = banners (stdout w) @ take (Suc k) (name # ts)
      \<and> (r = None \<longrightarrow> Suc k = length (name # ts)
            \<and> map test_name res' = map test_name res @ name # ts)"
      by simp
    then show ?thesis by blast
  qed
qed

lemma suite_banners:
  "\<exists>k\<le>3. banners (stdout (snd (run_full_calibration E w))) = banners (stdout w) @ take k tests"
proof -
  obtain r res' w1 where l: "for_each (suite_step E) tests ([], w) = (r, (res', w1))"
    by (metis prod_cases3)
  from suite_loop[OF l] obtain k where k: "k \<le> length tests"
    "banners (stdout w1) = banners (stdout w) @ take k tests" by blast
  have "banners (stdout (snd (run_full_calibration E w))) = banners (stdout w1)"
    using l by (cases r) (simp_all add: run_full_calibration_def banners_append banners_analysis)
  with k have "k \<le> 3 \<and> banners (stdout (snd (run_full_calibration E w)))
                       = banners (stdout w) @ take k tests"
    by (simp add: tests_def)
  then show ?thesis by blast
qed

lemma suite_returned:
  assumes "run_full_calibration E w = (Inr results, w')"
  shows "banners (stdout w') = banners (stdout w) @ tests"
    and "map test_name results = tests"
proof -
  obtain r res' w1 where l: "for_each (suite_step E) tests ([], w) = (r, (res', w1))"
    by (metis prod_cases3)
  from assms l have r: "r = None" and res: "res' = results"
    and w': "w' = w1\<lparr>stdout := stdout w1 @ analysis results\<rparr>"
    by (cases r; simp add: run_full_calibration_def)+
  from suite_loop[OF l] r have "banners (stdout w1) = banners (stdout w) @ tests"
    "map test_name res' = tests" by auto
  with res w' show "banners (stdout w') = banners (stdout w) @ tests"
    and "map test_name results = tests"
    by (simp_all add: banners_append banners_analysis)
qed

lemma suite_unfolded:
  assumes "run_full_calibration E w = (Inr results, w')"
  shows "\<exists>r1 w1 r2 w2 r3 w3.
           calibrate_test E ''breusch_pagan'' 200 500 0.05 0.1 w = (Inr r1, w1)
         \<and> calibrate_test E ''white'' 200 500 0.05 0.1 w1 = (Inr r2, w2)
         \<and> calibrate_test E ''dette_munk_wagner'' 200 500 0.05 0.1 w2 = (Inr r3, w3)
         \<and> results = [r1, r2, r3]"
  using assms
  by (auto simp: run_full_calibration_def tests_def suite_step_pair
      split: prod.splits option.splits sum.splits)

text \<open>
  Claim C10. \<^verbatim>\<open>run_full_calibration\<close> calls \<^verbatim>\<open>calibrate_test\<close> for \<open>breusch_pagan\<close>, \<open>white\<close>
  and \<open>dette_munk_wagner\<close>, in this order, each with \<open>200\<close> samples and \<open>500\<close> trials, and
  returns their results in this order. Whether it returns or raises, the banners it prints
  are those of a leading part of these three names, so it never calibrates
  \<open>goldfeld_quandt\<close>.
\<close>

theorem suite_calibrates_three_tests:
  "(\<exists>k\<le>3. banners (stdout (snd (run_full_calibration E w)))
             = banners (stdout w) @ take k [''breusch_pagan'', ''white'', ''dette_munk_wagner''])
   \<and> (''goldfeld_quandt'' \<notin> set (banners (stdout w)) \<longrightarrow>
        ''goldfeld_quandt'' \<notin> set (banners (stdout (snd (run_full_calibration E w)))))
   \<and> (run_full_calibration E w = (Inr results, w') \<longrightarrow>
        banners (stdout w')
          = banners (stdout w) @ [''breusch_pagan'', ''white'', ''dette_munk_wagner'']
        \<and> map test_name results = [''breusch_pagan'', ''white'', ''dette_munk_wagner'']
        \<and> (\<exists>r1 w1 r2 w2 r3 w3.
              calibrate_test E ''breusch_pagan'' 200 500 0.05 0.1 w = (Inr r1, w1)
            \<and> calibrate_test E ''white'' 200 500 0.05 0.1 w1 = (Inr r2, w2)
            \<and> calibrate_test E ''dette_munk_wagner'' 200 500 0.05 0.1 w2 = (Inr r3, w3)
            \<and> results = [r1, r2, r3]))"
proof -
  from suite_banners[of E w] obtain k where k: "k \<le> 3"
    "banners (stdout (snd (run_full_calibration E w)))
       = banners (stdout w) @ take k [''breusch_pagan'', ''white'', ''dette_munk_wagner'']"
    by (auto simp: tests_def)
  then have 1: "\<exists>k\<le>3. banners (stdout (snd (run_full_calibration E w)))
             = banners (stdout w) @ take k [''breusch_pagan'', ''white'', ''dette_munk_wagner'']"
    by blast
  have 2: "''goldfeld_quandt'' \<notin> set (banners (stdout w)) \<longrightarrow>
        ''goldfeld_quandt'' \<notin> set (banners (stdout (snd (run_full_calibration E w))))"
  proof
    assume n: "''goldfeld_quandt'' \<notin> set (banners (stdout w))"
    have t: "''goldfeld_quandt'' \<notin> set (take k [''breusch_pagan'', ''white'', ''dette_munk_wagner''])"
    proof
      assume "''goldfeld_quandt'' \<in> set (take k [''breusch_pagan'', ''white'', ''dette_munk_wagner''])"
      then have "''goldfeld_quandt'' \<in> set [''breusch_pagan'', ''white'', ''dette_munk_wagner'']"
        by (rule in_set_takeD)
      then show False by simp
    qed
    from n t show "''goldfeld_quandt'' \<notin> set (banners (stdout (snd (run_full_calibration E w))))"
      by (simp only: k(2) set_append Un_iff) blast
  qed
  have 3: "run_full_calibration E w = (Inr results, w') \<longrightarrow>
        banners (stdout w')
          = banners (stdout w) @ [''breusch_pagan'', ''white'', ''dette_munk_wagner'']
        \<and> map test_name results = [''breusch_pagan'', ''white'', ''dette_munk_wagner'']
        \<and> (\<exists>r1 w1 r2 w2 r3 w3.
              calibrate_test E ''breusch_pagan'' 200 500 0.05 0.1 w = (Inr r1, w1)
            \<and> calibrate_test E ''white'' 200 500 0.05 0.1 w1 = (Inr r2, w2)
            \<and> calibrate_test E ''dette_munk_wagner'' 200 500 0.05 0.1 w2 = (Inr r3, w3)
            \<and> results = [r1, r2, r3])"
  proof
    assume r: "run_full_calibration E w = (Inr results, w')"
    from suite_returned[OF r] suite_unfolded[OF r]
    show "banners (stdout w')
          = banners (stdout w) @ [''breusch_pagan'', ''white'', ''dette_munk_wagner'']
        \<and> map test_name results = [''breusch_pagan'', ''white'', ''dette_munk_wagner'']
        \<and> (\<exists>r1 w1 r2 w2 r3 w3.
              calibrate_test E ''breusch_pagan'' 200 500 0.05 0.1 w = (Inr r1, w1)
            \<and> calibrate_test E ''white'' 200 500 0.05 0.1 w1 = (Inr r2, w2)
            \<and> calibrate_test E ''dette_munk_wagner'' 200 500 0.05 0.1 w2 = (Inr r3, w3)
            \<and> results = [r1, r2, r3])"
      by (simp add: tests_def)
  qed
  from 1 2 3 show ?thesis by blast
qed

lemma const_env_outcomes:
  "size_outcome const_env name ns a b t = Verdict True"
  "power_outcome const_env name ns a b t = Verdict True"
  "sweep_outcome const_env name ns a b s t = Verdict True"
  by (simp_all add: size_outcome_def power_outcome_def sweep_outcome_def trial_outcome_def
      const_env_def demo_env_def)

lemma sum_hit_all: "sum_list (map (\<lambda>t. hit (Verdict True)) ts) = int (length ts)"
  by (induction ts) (simp_all add: hit_def)

lemma const_env_calibration:
  assumes "0 < n"
  shows "\<exists>w'. calibrate_test const_env name ns n a b w = (Inr (all_reject name a), w')"
proof -
  from assms have runs: "calibration_runs const_env name ns n a b"
    by (simp add: calibration_runs_def const_env_outcomes)
  from assms have s: "size_hits const_env name ns n a b = n"
    by (simp add: size_hits_def const_env_outcomes sum_hit_all length_py_range)
  from assms have p: "power_hits const_env name ns n a b = n"
    by (simp add: power_hits_def const_env_outcomes sum_hit_all length_py_range)
  from calibrate_test_runs[OF runs, of w] assms show ?thesis
    by (auto simp add: s p all_reject_def)
qed

lemma const_env_suite:
  "\<exists>w'. run_full_calibration const_env w =
     (Inr [all_reject ''breusch_pagan'' 0.05, all_reject ''white'' 0.05,
           all_reject ''dette_munk_wagner'' 0.05], w')"
proof -
  have p: "(0::int) < 500" by simp
  from const_env_calibration[OF p, of "''breusch_pagan''" 200 "0.05" "0.1" w]
  obtain w1 where c1: "calibrate_test const_env ''breusch_pagan'' 200 500 0.05 0.1 w =
           (Inr (all_reject ''breusch_pagan'' 0.05), w1)" by blast
  from const_env_calibration[OF p, of "''white''" 200 "0.05" "0.1" w1]
  obtain w2 where c2: "calibrate_test const_env ''white'' 200 500 0.05 0.1 w1 =
           (Inr (all_reject ''white'' 0.05), w2)" by blast
  from const_env_calibration[OF p, of "''dette_munk_wagner''" 200 "0.05" "0.1" w2]
  obtain w3 where c3: "calibrate_test const_env ''dette_munk_wagner'' 200 500 0.05 0.1 w2 =
           (Inr (all_reject ''dette_munk_wagner'' 0.05), w3)" by blast
  from c1 c2 c3 show ?thesis
    by (simp add: run_full_calibration_def tests_def suite_step_pair)
qed

theorem suite_calibrates_three_tests_witness:
  "fst (run_full_calibration const_env (blank const_env))
     = Inr [all_reject ''breusch_pagan'' 0.05, all_reject ''white'' 0.05,
            all_reject ''dette_munk_wagner'' 0.05]
   \<and> map test_name [all_reject ''breusch_pagan'' 0.05, all_reject ''white'' 0.05,
                     all_reject ''dette_munk_wagner'' 0.05]
     = [''breusch_pagan'', ''white'', ''dette_munk_wagner'']
   \<and> banners (stdout (blank const_env)) = []
   \<and> banners (stdout (snd (run_full_calibration const_env (blank const_env))))
     = [''breusch_pagan'', ''white'', ''dette_munk_wagner'']
   \<and> ''goldfeld_quandt'' \<notin> set (banners (stdout (snd (run_full_calibration const_env (blank const_env)))))"
proof -
  from const_env_suite[of "blank const_env"]
  obtain w' where h: "run_full_calibration const_env (blank const_env) =
     (Inr [all_reject ''breusch_pagan'' 0.05, all_reject ''white'' 0.05,
           all_reject ''dette_munk_wagner'' 0.05], w')" by blast
  have e: "banners (stdout (blank const_env)) = []"
    by (simp add: blank_def banners_def)
  then have n: "''goldfeld_quandt'' \<notin> set (banners (stdout (blank const_env)))" by simp
  note T = suite_calibrates_three_tests[of const_env "blank const_env" _ w']
  from T[THEN conjunct2, THEN conjunct2, THEN mp, OF h]
  have b: "banners (stdout w')
          = banners (stdout (blank const_env)) @ [''breusch_pagan'', ''white'', ''dette_munk_wagner'']"
    and m: "map test_name [all_reject ''breusch_pagan'' 0.05, all_reject ''white'' 0.05,
                     all_reject ''dette_munk_wagner'' 0.05]
     = [''breusch_pagan'', ''white'', ''dette_munk_wagner'']"
    by blast+
  from T[THEN conjunct2, THEN conjunct1, THEN mp, OF n]
  have g: "''goldfeld_quandt'' \<notin> set (banners (stdout (snd (run_full_calibration const_env (blank const_env)))))" .
  from h b e m g show ?thesis by simp
qed

subsection \<open>The best test\<close>

lemma max_key_in: "max_key k b xs \<in> set (b # xs)"
proof (induction xs arbitrary: b)
  case Nil
  show ?case by simp
next
  case (Cons x xs)
  from Cons.IH[of "if k x > k b then x else b"] show ?case
    by (auto split: if_splits)
qed

lemma max_key_ge: "y \<in> set (b # xs) \<Longrightarrow> k y \<le> k (max_key k b xs)"
proof (induction xs arbitrary: b y)
  case Nil
  then show ?case by simp
next
  case (Cons x xs)
  have b: "k b \<le> k (max_key k (if k x > k b then x else b) xs)"
    and x: "k x \<le> k (max_key k (if k x > k b then x else b) xs)"
    using Cons.IH[of "if k x > k b then x else b" "if k x > k b then x else b"]
    by (simp_all split: if_splits)
  from Cons.prems consider "y = b" | "y = x" | "y \<in> set xs" by auto
  then show ?case
  proof cases
    case 1 with b show ?thesis by simp
  next
    case 2 with x show ?thesis by simp
  next
    case 3
    then have "y \<in> set ((if k x > k b then x else b) # xs)" by simp
    from Cons.IH[OF this] show ?thesis by simp
  qed
qed

text \<open>
  Claim C4. For any list of results, if some result has both flags, the analysis names as
  best a result of the list that has both flags and whose margin \<open>power - empirical_size\<close>
  is greatest among the results with both flags; if none has both flags, the analysis prints
  that no test passed and lists, in order, exactly the results whose \<open>size_calibrated\<close> is
  false. The suite prints this analysis of its results last.
\<close>

theorem best_test_selection:
  "((\<exists>r\<in>set results. size_calibrated r \<and> power_adequate r) \<longrightarrow>
      (\<exists>best. analysis results = [BestCalibrated best]
         \<and> best \<in> set results \<and> size_calibrated best \<and> power_adequate best
         \<and> (\<forall>r\<in>set results. size_calibrated r \<and> power_adequate r \<longrightarrow>
               power_rate r - empirical_size r \<le> power_rate best - empirical_size best)))
   \<and> (\<not> (\<exists>r\<in>set results. size_calibrated r \<and> power_adequate r) \<longrightarrow>
        analysis results
          = NoTestPassed # map Oversized (filter (\<lambda>r. \<not> size_calibrated r) results))
   \<and> (run_full_calibration E w = (Inr results, w') \<longrightarrow>
        (\<exists>ls. stdout w' = ls @ analysis results))"
proof -
  let ?ok = "\<lambda>r. size_calibrated r \<and> power_adequate r"
  let ?m = "\<lambda>r. power_rate r - empirical_size r"
  have 1: "(\<exists>r\<in>set results. ?ok r) \<longrightarrow>
      (\<exists>best. analysis results = [BestCalibrated best]
         \<and> best \<in> set results \<and> size_calibrated best \<and> power_adequate best
         \<and> (\<forall>r\<in>set results. ?ok r \<longrightarrow> ?m r \<le> ?m best))"
  proof
    assume "\<exists>r\<in>set results. ?ok r"
    then have "filter ?ok results \<noteq> []" by (simp add: filter_empty_conv)
    then obtain p ps where f: "filter ?ok results = p # ps" by (cases "filter ?ok results") auto
    let ?b = "max_key ?m p ps"
    have a: "analysis results = [BestCalibrated ?b]"
      by (simp add: analysis_def f)
    have "?b \<in> set (filter ?ok results)" using max_key_in[of ?m p ps] by (simp only: f)
    then have b: "?b \<in> set results" "size_calibrated ?b" "power_adequate ?b" by auto
    have c: "\<forall>r\<in>set results. ?ok r \<longrightarrow> ?m r \<le> ?m ?b"
    proof (intro ballI impI)
      fix r assume "r \<in> set results" "?ok r"
      then have "r \<in> set (filter ?ok results)" by simp
      then have "r \<in> set (p # ps)" by (simp only: f)
      then show "?m r \<le> ?m ?b" by (rule max_key_ge)
    qed
    from a b c show "\<exists>best. analysis results = [BestCalibrated best]
         \<and> best \<in> set results \<and> size_calibrated best \<and> power_adequate best
         \<and> (\<forall>r\<in>set results. ?ok r \<longrightarrow> ?m r \<le> ?m best)" by blast
  qed
  have 2: "\<not> (\<exists>r\<in>set results. ?ok r) \<longrightarrow>
        analysis results
          = NoTestPassed # map Oversized (filter (\<lambda>r. \<not> size_calibrated r) results)"
  proof
    assume "\<not> (\<exists>r\<in>set results. ?ok r)"
    then have "filter ?ok results = []" by (simp add: filter_empty_conv)
    then show "analysis results
          = NoTestPassed # map Oversized (filter (\<lambda>r. \<not> size_calibrated r) results)"
      by (simp add: analysis_def)
  qed
  have 3: "run_full_calibration E w = (Inr results, w') \<longrightarrow>
        (\<exists>ls. stdout w' = ls @ analysis results)"
    by (auto simp: run_full_calibration_def split: prod.splits option.splits)
  from 1 2 3 show ?thesis by blast
qed

theorem best_test_selection_witness:
  "analysis [result_R1, result_R2] = [BestCalibrated result_R2]
   \<and> analysis [result_R3, result_R4] = [NoTestPassed, Oversized result_R3]
   \<and> fst (run_full_calibration const_env (blank const_env))
     = Inr [all_reject ''breusch_pagan'' 0.05, all_reject ''white'' 0.05,
            all_reject ''dette_munk_wagner'' 0.05]
   \<and> (\<exists>ls. stdout (snd (run_full_calibration const_env (blank const_env)))
         = ls @ [NoTestPassed, Oversized (all_reject ''breusch_pagan'' 0.05),
                 Oversized (all_reject ''white'' 0.05),
                 Oversized (all_reject ''dette_munk_wagner'' 0.05)])"
proof -
  have h1: "\<exists>r\<in>set [result_R1, result_R2]. size_calibrated r \<and> power_adequate r"
    by (simp add: result_R1_def)
  have h2: "\<not> (\<exists>r\<in>set [result_R3, result_R4]. size_calibrated r \<and> power_adequate r)"
    by (simp add: result_R3_def result_R4_def)
  from best_test_selection[of "[result_R1, result_R2]", THEN conjunct1, THEN mp, OF h1]
  obtain best where a: "analysis [result_R1, result_R2] = [BestCalibrated best]"
    and b: "best \<in> set [result_R1, result_R2]"
    and c: "\<forall>r\<in>set [result_R1, result_R2]. size_calibrated r \<and> power_adequate r \<longrightarrow>
               power_rate r - empirical_size r \<le> power_rate best - empirical_size best"
    by blast
  from c have "power_rate result_R2 - empirical_size result_R2
                 \<le> power_rate best - empirical_size best"
    by (simp add: result_R2_def)
  with b have "best = result_R2"
    by (auto simp: result_R1_def result_R2_def)
  with a have 1: "analysis [result_R1, result_R2] = [BestCalibrated result_R2]" by simp
  from best_test_selection[of "[result_R3, result_R4]", THEN conjunct2, THEN conjunct1, THEN mp, OF h2]
  have 2: "analysis [result_R3, result_R4] = [NoTestPassed, Oversized result_R3]"
    by (simp add: result_R3_def result_R4_def)
  let ?rs = "[all_reject ''breusch_pagan'' 0.05, all_reject ''white'' 0.05,
              all_reject ''dette_munk_wagner'' 0.05]"
  from const_env_suite[of "blank const_env"]
  obtain w' where h3: "run_full_calibration const_env (blank const_env) = (Inr ?rs, w')"
    by blast
  have h4: "\<not> (\<exists>r\<in>set ?rs. size_calibrated r \<and> power_adequate r)"
    by (simp add: all_reject_def)
  from best_test_selection[of ?rs, THEN conjunct2, THEN conjunct1, THEN mp, OF h4]
  have an: "analysis ?rs = [NoTestPassed, Oversized (all_reject ''breusch_pagan'' 0.05),
                 Oversized (all_reject ''white'' 0.05),
                 Oversized (all_reject ''dette_munk_wagner'' 0.05)]"
    by (simp add: all_reject_def)
  from best_test_selection[of ?rs const_env "blank const_env" w',
      THEN conjunct2, THEN conjunct2, THEN mp, OF h3]
  have "\<exists>ls. stdout w' = ls @ analysis ?rs" .
  then have 3: "\<exists>ls. stdout w' = ls @ [NoTestPassed, Oversized (all_reject ''breusch_pagan'' 0.05),
                 Oversized (all_reject ''white'' 0.05),
                 Oversized (all_reject ''dette_munk_wagner'' 0.05)]"
    unfolding an .
  from 1 2 3 h3 show ?thesis by simp
qed

subsection \<open>The generators\<close>

text \<open>
  Each generator reseeds before it draws: the dataset it returns depends on its arguments
  only, not on the state of the random generator it is called in, and the state it leaves
  is that of the draws after the seed.
\<close>

lemma generators_reseed:
  "fst (generate_nonlinear_homoscedastic E n seed w)
     = fst (generate_nonlinear_homoscedastic E n seed v)
   \<and> fst (generate_trumpet E n seed strength w) = fst (generate_trumpet E n seed strength v)
   \<and> rng (snd (generate_nonlinear_homoscedastic E n seed w)) = rng_after E n seed
   \<and> rng (snd (generate_trumpet E n seed strength w)) = rng_after E n seed"
  by (simp add: generate_null_dataset generate_trumpet_dataset)

lemma linspace01_range: "i < n \<Longrightarrow> 0 \<le> linspace01 n ! i \<and> linspace01 n ! i \<le> 1"
  by (auto simp: linspace01_def divide_le_eq)

text \<open>
  Claim C1. Both generators return the same covariates, the \<open>n\<close> evenly spaced points
  \<open>i / (n - 1)\<close> of \<open>[0, 1]\<close> (the single point \<open>0\<close> when \<open>n = 1\<close>), and responses
  \<open>sin (2 pi x) + noise\<close>, where the noise of point \<open>i\<close> is draw \<open>i\<close> of the standard normal
  generator after the seed, times \<open>0.2\<close> for the null scenario and times
  \<open>0.1 + strength * x\<close> for the alternative. With strength \<open>0\<close> the alternative has scale \<open>0.1\<close>
  where the null has \<open>0.2\<close>: the two responses differ as soon as one draw is not zero. That
  the draws are independent and normal is a property of the generator, which the statement
  takes as it is.
\<close>

theorem generators_follow_scenarios:
  assumes "generate_nonlinear_homoscedastic E n seed w = ((X0, y0), w0)"
      and "generate_trumpet E n seed strength v = ((X1, y1), v1)"
  shows "length X0 = n \<and> length y0 = n \<and> X1 = X0 \<and> length y1 = n
       \<and> (2 \<le> n \<longrightarrow> X0 ! 0 = 0 \<and> X0 ! (n - 1) = 1)
       \<and> (\<forall>i<n. X0 ! i = (if n = 1 then 0 else real i / real (n - 1))
              \<and> 0 \<le> X0 ! i \<and> X0 ! i \<le> 1
              \<and> y0 ! i = sin (2 * pi * X0 ! i) + noise_draws E n seed ! i * 0.2
              \<and> y1 ! i = sin (2 * pi * X0 ! i)
                          + noise_draws E n seed ! i * (0.1 + strength * X0 ! i))
       \<and> (strength = 0 \<and> (\<exists>i<n. noise_draws E n seed ! i \<noteq> 0) \<longrightarrow> y1 \<noteq> y0)"
proof -
  let ?z = "noise_draws E n seed"
  from assms(1) have X0: "X0 = linspace01 n"
    and y0: "y0 = map2 (+) (map (\<lambda>x. sin (2 * pi * x)) (linspace01 n)) (map (\<lambda>e. e * 0.2) ?z)"
    by (auto simp: generate_null_eq)
  from assms(2) have X1: "X1 = linspace01 n"
    and y1: "y1 = map2 (+) (map (\<lambda>x. sin (2 * pi * x)) (linspace01 n))
                    (map2 (*) ?z (map (\<lambda>x. 0.1 + strength * x) (linspace01 n)))"
    by (auto simp: generate_trumpet_eq)
  have len: "length X0 = n" "length y0 = n" "X1 = X0" "length y1 = n"
    by (simp_all add: X0 X1 y0 y1 length_linspace01 length_noise_draws)
  have ends: "2 \<le> n \<longrightarrow> X0 ! 0 = 0 \<and> X0 ! (n - 1) = 1"
    by (auto simp: X0 nth_linspace01)
  have pt: "X0 ! i = (if n = 1 then 0 else real i / real (n - 1))
              \<and> 0 \<le> X0 ! i \<and> X0 ! i \<le> 1
              \<and> y0 ! i = sin (2 * pi * X0 ! i) + ?z ! i * 0.2
              \<and> y1 ! i = sin (2 * pi * X0 ! i) + ?z ! i * (0.1 + strength * X0 ! i)"
    if i: "i < n" for i
  proof -
    have a: "X0 ! i = (if n = 1 then 0 else real i / real (n - 1))"
      using i by (simp only: X0 nth_linspace01)
    have b: "0 \<le> X0 ! i \<and> X0 ! i \<le> 1"
      using i by (simp only: X0 linspace01_range)
    have c: "y0 ! i = sin (2 * pi * X0 ! i) + ?z ! i * 0.2"
      using i by (simp add: y0 X0 length_linspace01 length_noise_draws)
    have d: "y1 ! i = sin (2 * pi * X0 ! i) + ?z ! i * (0.1 + strength * X0 ! i)"
      using i by (simp add: y1 X0 length_linspace01 length_noise_draws)
    from a b c d show ?thesis by blast
  qed
  have diff: "strength = 0 \<and> (\<exists>i<n. ?z ! i \<noteq> 0) \<longrightarrow> y1 \<noteq> y0"
  proof
    assume h: "strength = 0 \<and> (\<exists>i<n. ?z ! i \<noteq> 0)"
    then obtain i where i: "i < n" "?z ! i \<noteq> 0" by blast
    from pt[OF i(1)] h have "y0 ! i = sin (2 * pi * X0 ! i) + ?z ! i * 0.2"
      and "y1 ! i = sin (2 * pi * X0 ! i) + ?z ! i * 0.1" by simp_all
    with i(2) have "y1 ! i \<noteq> y0 ! i" by simp
    then show "y1 \<noteq> y0" by auto
  qed
  from len ends pt diff show ?thesis by blast
qed

lemma demo_noise_2: "noise_draws demo_env 2 seed = [real (nat seed), real (nat seed) + 1]"
  by (simp add: noise_draws_def demo_env_def numeral_2_eq_2)

theorem generators_follow_scenarios_witness:
  "fst (generate_nonlinear_homoscedastic demo_env 2 5 (blank demo_env)) = ([0, 1], [1, 1.2])
   \<and> fst (generate_trumpet demo_env 2 5 0 (blank demo_env)) = ([0, 1], [0.5, 0.6])
   \<and> noise_draws demo_env 2 5 = [5, 6]
   \<and> snd (fst (generate_trumpet demo_env 2 5 0 (blank demo_env)))
       \<noteq> snd (fst (generate_nonlinear_homoscedastic demo_env 2 5 (blank demo_env)))"
proof -
  have fa: "fst (generate_nonlinear_homoscedastic demo_env 2 5 (blank demo_env)) = ([0, 1], [1, 1.2])"
    by (simp add: generate_null_eq linspace01_def demo_noise_2 upt_rec)
  have fb: "fst (generate_trumpet demo_env 2 5 0 (blank demo_env)) = ([0, 1], [0.5, 0.6])"
    by (simp add: generate_trumpet_eq linspace01_def demo_noise_2 upt_rec)
  have a: "generate_nonlinear_homoscedastic demo_env 2 5 (blank demo_env)
             = (([0, 1], [1, 1.2]), snd (generate_nonlinear_homoscedastic demo_env 2 5 (blank demo_env)))"
    using fa by (simp add: prod_eq_iff)
  have b: "generate_trumpet demo_env 2 5 0 (blank demo_env)
             = (([0, 1], [0.5, 0.6]), snd (generate_trumpet demo_env 2 5 0 (blank demo_env)))"
    using fb by (simp add: prod_eq_iff)
  have c: "(0::real) = 0 \<and> (\<exists>i<2. noise_draws demo_env 2 5 ! i \<noteq> 0)"
    by (simp add: demo_noise_2 exI[of _ 0])
  from generators_follow_scenarios[OF a b] c
  have ne: "[0.5, 0.6] \<noteq> [1, 1.2::real]" by blast
  have d: "noise_draws demo_env 2 5 = [5, 6]" by (simp add: demo_noise_2)
  from fa fb ne d show ?thesis by (simp only: snd_conv) simp
qed

subsection \<open>Trials attempted\<close>

lemma for_each_prefix:
  fixes body :: "'a \<Rightarrow> int \<times> 'w \<Rightarrow> fault option \<times> (int \<times> 'w)"
  assumes body: "\<And>t c w. body t (c, w) = (ab t, (c + inc t, upd t w))"
      and run: "for_each body ts (c, w) = (res, (c', w'))"
  shows "\<exists>k\<le>length ts. c' = c + sum_list (map inc (take k ts))
           \<and> w' = fold upd (take k ts) w
           \<and> (res = None \<longrightarrow> k = length ts)"
  using run
proof (induction ts arbitrary: c w)
  case Nil
  then show ?case by simp
next
  case (Cons t ts)
  show ?case
  proof (cases "ab t")
    case (Some e)
    with Cons.prems have "res = Some e" "c' = c + inc t" "w' = upd t w"
      by (simp_all add: body)
    then have "(1::nat) \<le> length (t # ts) \<and> c' = c + sum_list (map inc (take 1 (t # ts)))
           \<and> w' = fold upd (take 1 (t # ts)) w
           \<and> (res = None \<longrightarrow> 1 = length (t # ts))"
      by simp
    then show ?thesis by blast
  next
    case None
    with Cons.prems have "for_each body ts (c + inc t, upd t w) = (res, (c', w'))"
      by (simp add: body)
    from Cons.IH[OF this] obtain k where k: "k \<le> length ts"
      "c' = c + inc t + sum_list (map inc (take k ts))"
      "w' = fold upd (take k ts) (upd t w)"
      "res = None \<longrightarrow> k = length ts" by blast
    then have "Suc k \<le> length (t # ts) \<and> c' = c + sum_list (map inc (take (Suc k) (t # ts)))
           \<and> w' = fold upd (take (Suc k) (t # ts)) w
           \<and> (res = None \<longrightarrow> Suc k = length (t # ts))"
      by simp
    then show ?thesis by blast
  qed
qed

lemma size_arm_any:
  assumes "size_arm E name ns n a b v = (res, (fp, v'))"
  shows "\<exists>k\<le>nat n. seeded v' = seeded v @ map size_seed (take k (py_range n))
           \<and> 0 \<le> fp \<and> fp \<le> int k \<and> (res = None \<longrightarrow> k = nat n)"
proof -
  from for_each_prefix[OF size_trial_step assms[unfolded size_arm_def]]
  obtain k where k: "k \<le> length (py_range n)"
    "fp = 0 + sum_list (map (\<lambda>t. hit (size_outcome E name ns a b t)) (take k (py_range n)))"
    "v' = fold (\<lambda>t w. w\<lparr>rng := rng_after E ns (size_seed t), seeded := seeded w @ [size_seed t],
                stdout := stdout w @ warning_of t (size_outcome E name ns a b t)\<rparr>)
            (take k (py_range n)) v"
    "res = None \<longrightarrow> k = length (py_range n)" by blast
  from k(1) have l: "length (take k (py_range n)) = k" by simp
  from sum_hit_bounds[of "size_outcome E name ns a b" "take k (py_range n)"] k(2) l
  have b: "0 \<le> fp" "fp \<le> int k" by simp_all
  from k(3) have s: "seeded v' = seeded v @ map size_seed (take k (py_range n))"
    by (simp add: fold_seed_warn_seeded)
  from k(1) k(4) b s show ?thesis by (auto simp: length_py_range)
qed

lemma power_arm_any:
  assumes "power_arm E name ns n a b v = (res, (tp, v'))"
  shows "\<exists>k\<le>nat n. seeded v' = seeded v @ map power_seed (take k (py_range n))
           \<and> 0 \<le> tp \<and> tp \<le> int k \<and> (res = None \<longrightarrow> k = nat n)"
proof -
  from for_each_prefix[OF power_trial_step assms[unfolded power_arm_def]]
  obtain k where k: "k \<le> length (py_range n)"
    "tp = 0 + sum_list (map (\<lambda>t. hit (power_outcome E name ns a b t)) (take k (py_range n)))"
    "v' = fold (\<lambda>t w. w\<lparr>rng := rng_after E ns (power_seed t), seeded := seeded w @ [power_seed t]\<rparr>)
            (take k (py_range n)) v"
    "res = None \<longrightarrow> k = length (py_range n)" by blast
  from k(1) have l: "length (take k (py_range n)) = k" by simp
  from sum_hit_bounds[of "power_outcome E name ns a b" "take k (py_range n)"] k(2) l
  have b: "0 \<le> tp" "tp \<le> int k" by simp_all
  from k(3) have s: "seeded v' = seeded v @ map power_seed (take k (py_range n))"
    by (simp add: fold_seed_seeded)
  from k(1) k(4) b s show ?thesis by (auto simp: length_py_range)
qed

text \<open>
  Claim C9, as amended. For \<open>n_trials > 0\<close>, a call of \<^verbatim>\<open>calibrate_test\<close> returns a result
  exactly when in no trial of either arm the fit raises or the test raises something that is
  not an \<^verbatim>\<open>Exception\<close>. An arm, whether it ends or raises, has attempted the first \<open>k\<close> of its
  trials for some \<open>k \<le> n_trials\<close> (it has generated their datasets, with their seeds), its
  counter lies between \<open>0\<close> and \<open>k\<close>, and \<open>k = n_trials\<close> when it ends. A call that returns has
  attempted exactly \<open>n_trials\<close> trials in each arm, the size arm first, and the size and the
  power of its result are the two counters over \<open>n_trials\<close> and lie in \<open>[0, 1]\<close>.
\<close>

theorem arm_tallies_bounded:
  assumes "0 < n_trials"
  shows "((\<exists>r w'. calibrate_test E name n_samples n_trials alpha bandwidth w = (Inr r, w'))
            = calibration_runs E name n_samples n_trials alpha bandwidth)
       \<and> (size_arm E name n_samples n_trials alpha bandwidth v = (res, (fp, v')) \<longrightarrow>
            (\<exists>k. int k \<le> n_trials
               \<and> seeded v' = seeded v @ map size_seed (take k (py_range n_trials))
               \<and> 0 \<le> fp \<and> fp \<le> int k \<and> (res = None \<longrightarrow> int k = n_trials)))
       \<and> (power_arm E name n_samples n_trials alpha bandwidth v = (res, (fp, v')) \<longrightarrow>
            (\<exists>k. int k \<le> n_trials
               \<and> seeded v' = seeded v @ map power_seed (take k (py_range n_trials))
               \<and> 0 \<le> fp \<and> fp \<le> int k \<and> (res = None \<longrightarrow> int k = n_trials)))
       \<and> (calibrate_test E name n_samples n_trials alpha bandwidth w = (Inr r, w') \<longrightarrow>
           seeded w' = seeded w @ map size_seed (py_range n_trials)
                                @ map power_seed (py_range n_trials)
         \<and> int (length (map size_seed (py_range n_trials))) = n_trials
         \<and> int (length (map power_seed (py_range n_trials))) = n_trials
         \<and> 0 \<le> fst (snd (size_arm E name n_samples n_trials alpha bandwidth v))
         \<and> fst (snd (size_arm E name n_samples n_trials alpha bandwidth v)) \<le> n_trials
         \<and> 0 \<le> fst (snd (power_arm E name n_samples n_trials alpha bandwidth v))
         \<and> fst (snd (power_arm E name n_samples n_trials alpha bandwidth v)) \<le> n_trials
         \<and> empirical_size r
             = real_of_int (fst (snd (size_arm E name n_samples n_trials alpha bandwidth v)))
                 / real_of_int n_trials
         \<and> power_rate r
             = real_of_int (fst (snd (power_arm E name n_samples n_trials alpha bandwidth v)))
                 / real_of_int n_trials
         \<and> 0 \<le> empirical_size r \<and> empirical_size r \<le> 1
         \<and> 0 \<le> power_rate r \<and> power_rate r \<le> 1)"
proof -
  from assms have n: "int (nat n_trials) = n_trials" by simp
  have 1: "(\<exists>r w'. calibrate_test E name n_samples n_trials alpha bandwidth w = (Inr r, w'))
            = calibration_runs E name n_samples n_trials alpha bandwidth"
  proof
    assume "\<exists>r w'. calibrate_test E name n_samples n_trials alpha bandwidth w = (Inr r, w')"
    then show "calibration_runs E name n_samples n_trials alpha bandwidth"
      using calibrate_test_Inr_runs by blast
  next
    assume "calibration_runs E name n_samples n_trials alpha bandwidth"
    from calibrate_test_runs[OF this, of w]
    show "\<exists>r w'. calibrate_test E name n_samples n_trials alpha bandwidth w = (Inr r, w')"
      by blast
  qed
  have 2: "size_arm E name n_samples n_trials alpha bandwidth v = (res, (fp, v')) \<longrightarrow>
            (\<exists>k. int k \<le> n_trials
               \<and> seeded v' = seeded v @ map size_seed (take k (py_range n_trials))
               \<and> 0 \<le> fp \<and> fp \<le> int k \<and> (res = None \<longrightarrow> int k = n_trials))"
  proof
    assume "size_arm E name n_samples n_trials alpha bandwidth v = (res, (fp, v'))"
    from size_arm_any[OF this] obtain k where "k \<le> nat n_trials"
      "seeded v' = seeded v @ map size_seed (take k (py_range n_trials))"
      "0 \<le> fp" "fp \<le> int k" "res = None \<longrightarrow> k = nat n_trials" by blast
    moreover from \<open>k \<le> nat n_trials\<close> assms have "int k \<le> n_trials" by linarith
    moreover from \<open>res = None \<longrightarrow> k = nat n_trials\<close> assms
    have "res = None \<longrightarrow> int k = n_trials" by auto
    ultimately have "int k \<le> n_trials
               \<and> seeded v' = seeded v @ map size_seed (take k (py_range n_trials))
               \<and> 0 \<le> fp \<and> fp \<le> int k \<and> (res = None \<longrightarrow> int k = n_trials)"
      by blast
    then show "\<exists>k. int k \<le> n_trials
               \<and> seeded v' = seeded v @ map size_seed (take k (py_range n_trials))
               \<and> 0 \<le> fp \<and> fp \<le> int k \<and> (res = None \<longrightarrow> int k = n_trials)" ..
  qed
  have 3: "power_arm E name n_samples n_trials alpha bandwidth v = (res, (fp, v')) \<longrightarrow>
            (\<exists>k. int k \<le> n_trials
               \<and> seeded v' = seeded v @ map power_seed (take k (py_range n_trials))
               \<and> 0 \<le> fp \<and> fp \<le> int k \<and> (res = None \<longrightarrow> int k = n_trials))"
  proof
    assume "power_arm E name n_samples n_trials alpha bandwidth v = (res, (fp, v'))"
    from power_arm_any[OF this] obtain k where "k \<le> nat n_trials"
      "seeded v' = seeded v @ map power_seed (take k (py_range n_trials))"
      "0 \<le> fp" "fp \<le> int k" "res = None \<longrightarrow> k = nat n_trials" by blast
    moreover from \<open>k \<le> nat n_trials\<close> assms have "int k \<le> n_trials" by linarith
    moreover from \<open>res = None \<longrightarrow> k = nat n_trials\<close> assms
    have "res = None \<longrightarrow> int k = n_trials" by auto
    ultimately have "int k \<le> n_trials
               \<and> seeded v' = seeded v @ map power_seed (take k (py_range n_trials))
               \<and> 0 \<le> fp \<and> fp \<le> int k \<and> (res = None \<longrightarrow> int k = n_trials)"
      by blast
    then show "\<exists>k. int k \<le> n_trials
               \<and> seeded v' = seeded v @ map power_seed (take k (py_range n_trials))
               \<and> 0 \<le> fp \<and> fp \<le> int k \<and> (res = None \<longrightarrow> int k = n_trials)" ..
  qed
  have 4: "calibrate_test E name n_samples n_trials alpha bandwidth w = (Inr r, w') \<longrightarrow>
           seeded w' = seeded w @ map size_seed (py_range n_trials)
                                @ map power_seed (py_range n_trials)
         \<and> int (length (map size_seed (py_range n_trials))) = n_trials
         \<and> int (length (map power_seed (py_range n_trials))) = n_trials
         \<and> 0 \<le> fst (snd (size_arm E name n_samples n_trials alpha bandwidth v))
         \<and> fst (snd (size_arm E name n_samples n_trials alpha bandwidth v)) \<le> n_trials
         \<and> 0 \<le> fst (snd (power_arm E name n_samples n_trials alpha bandwidth v))
         \<and> fst (snd (power_arm E name n_samples n_trials alpha bandwidth v)) \<le> n_trials
         \<and> empirical_size r
             = real_of_int (fst (snd (size_arm E name n_samples n_trials alpha bandwidth v)))
                 / real_of_int n_trials
         \<and> power_rate r
             = real_of_int (fst (snd (power_arm E name n_samples n_trials alpha bandwidth v)))
                 / real_of_int n_trials
         \<and> 0 \<le> empirical_size r \<and> empirical_size r \<le> 1
         \<and> 0 \<le> power_rate r \<and> power_rate r \<le> 1"
  proof
    assume ret: "calibrate_test E name n_samples n_trials alpha bandwidth w = (Inr r, w')"
    have runs: "calibration_runs E name n_samples n_trials alpha bandwidth"
      using ret by (rule calibrate_test_Inr_runs)
    note res = calibrate_test_result[OF ret]
    note st = size_arm_tally[OF runs, of v]
    note pt = power_arm_tally[OF runs, of v]
    have sb: "0 \<le> size_hits E name n_samples n_trials alpha bandwidth"
      "size_hits E name n_samples n_trials alpha bandwidth \<le> n_trials"
      using size_hits_bounds[of E name n_samples n_trials alpha bandwidth] n by simp_all
    have pb: "0 \<le> power_hits E name n_samples n_trials alpha bandwidth"
      "power_hits E name n_samples n_trials alpha bandwidth \<le> n_trials"
      using power_hits_bounds[of E name n_samples n_trials alpha bandwidth] n by simp_all
    have e: "0 \<le> empirical_size r" "empirical_size r \<le> 1"
      using sb assms by (simp_all add: res(4))
    have p: "0 \<le> power_rate r" "power_rate r \<le> 1"
      using pb assms by (simp_all add: res(6))
    have l: "int (length (map size_seed (py_range n_trials))) = n_trials"
      "int (length (map power_seed (py_range n_trials))) = n_trials"
      using n by (simp_all add: length_py_range)
    have q: "empirical_size r
             = real_of_int (fst (snd (size_arm E name n_samples n_trials alpha bandwidth v)))
                 / real_of_int n_trials"
      "power_rate r
             = real_of_int (fst (snd (power_arm E name n_samples n_trials alpha bandwidth v)))
                 / real_of_int n_trials"
      by (simp_all add: st pt res(4) res(6))
    from res(8) l sb pb e p q
    show "seeded w' = seeded w @ map size_seed (py_range n_trials)
                                @ map power_seed (py_range n_trials)
         \<and> int (length (map size_seed (py_range n_trials))) = n_trials
         \<and> int (length (map power_seed (py_range n_trials))) = n_trials
         \<and> 0 \<le> fst (snd (size_arm E name n_samples n_trials alpha bandwidth v))
         \<and> fst (snd (size_arm E name n_samples n_trials alpha bandwidth v)) \<le> n_trials
         \<and> 0 \<le> fst (snd (power_arm E name n_samples n_trials alpha bandwidth v))
         \<and> fst (snd (power_arm E name n_samples n_trials alpha bandwidth v)) \<le> n_trials
         \<and> empirical_size r
             = real_of_int (fst (snd (size_arm E name n_samples n_trials alpha bandwidth v)))
                 / real_of_int n_trials
         \<and> power_rate r
             = real_of_int (fst (snd (power_arm E name n_samples n_trials alpha bandwidth v)))
                 / real_of_int n_trials
         \<and> 0 \<le> empirical_size r \<and> empirical_size r \<le> 1
         \<and> 0 \<le> power_rate r \<and> power_rate r \<le> 1"
      by (simp add: st pt)
  qed
  from 1 2 3 4 show ?thesis by blast
qed

lemma fit_fails_size_arm:
  "size_arm fit_fails_env name ns 10 a b w =
     (Some (Exc ''singular''),
      (0, w\<lparr>rng := rng_after fit_fails_env ns 0, seeded := seeded w @ [0]\<rparr>))"
  by (simp add: size_arm_def py_range_10 size_trial_step fit_fails_outcomes size_seed_def hit_def)

lemma fit_fails_calibration_10:
  "calibrate_test fit_fails_env name ns 10 a b w =
     (Inl (Exc ''singular''),
      w\<lparr>rng := rng_after fit_fails_env ns 0, seeded := seeded w @ [0],
        stdout := stdout w @ [Calibrating name]\<rparr>)"
  by (simp add: calibrate_test_def fit_fails_size_arm)

theorem arm_tallies_bounded_witness:
  "(0::int) < 10
   \<and> calibration_runs demo_env ''white'' 1 10 0.05 0.1
   \<and> fst (calibrate_test demo_env ''white'' 1 10 0.05 0.1 (blank demo_env))
     = Inr \<lparr>test_name = ''white'', nominal_alpha = 0.05, empirical_size = 0.10,
            size_calibrated = True, power_rate = 0.80, power_adequate = True\<rparr>
   \<and> seeded (snd (calibrate_test demo_env ''white'' 1 10 0.05 0.1 (blank demo_env)))
     = [0, 1, 2, 3, 4, 5, 6, 7, 8, 9,
        100000, 100001, 100002, 100003, 100004, 100005, 100006, 100007, 100008, 100009]
   \<and> fst (snd (size_arm demo_env ''white'' 1 10 0.05 0.1 (blank demo_env))) = 1
   \<and> fst (snd (power_arm demo_env ''white'' 1 10 0.05 0.1 (blank demo_env))) = 8
   \<and> size_arm fit_fails_env ''white'' 1 10 0.05 0.1 (blank fit_fails_env)
     = (Some (Exc ''singular''),
        (0, snd (snd (size_arm fit_fails_env ''white'' 1 10 0.05 0.1 (blank fit_fails_env)))))
   \<and> seeded (snd (snd (size_arm fit_fails_env ''white'' 1 10 0.05 0.1 (blank fit_fails_env))))
     = [0]
   \<and> (\<exists>k. int k \<le> 10
          \<and> seeded (snd (snd (size_arm fit_fails_env ''white'' 1 10 0.05 0.1
                                 (blank fit_fails_env))))
              = map size_seed (take k (py_range 10))
          \<and> (0::int) \<le> int k)"
proof -
  obtain w' where h: "calibrate_test demo_env ''white'' 1 10 0.05 0.1 (blank demo_env) =
     (Inr \<lparr>test_name = ''white'', nominal_alpha = 0.05, empirical_size = 0.10,
           size_calibrated = True, power_rate = 0.80, power_adequate = True\<rparr>, w')"
    using demo_calibration[of "''white''" "0.05" "0.1" "blank demo_env"] by auto
  have p: "(0::int) < 10" by simp
  note T = arm_tallies_bounded[OF p, of demo_env "''white''" 1 "0.05" "0.1" "blank demo_env"
      "blank demo_env" _ _ _ _ w']
  from T[THEN conjunct1] h have r: "calibration_runs demo_env ''white'' 1 10 0.05 0.1"
    by blast
  from T[THEN conjunct2, THEN conjunct2, THEN conjunct2, THEN mp, OF h] h r
  have a: "(0::int) < 10
   \<and> calibration_runs demo_env ''white'' 1 10 0.05 0.1
   \<and> fst (calibrate_test demo_env ''white'' 1 10 0.05 0.1 (blank demo_env))
     = Inr \<lparr>test_name = ''white'', nominal_alpha = 0.05, empirical_size = 0.10,
            size_calibrated = True, power_rate = 0.80, power_adequate = True\<rparr>
   \<and> seeded (snd (calibrate_test demo_env ''white'' 1 10 0.05 0.1 (blank demo_env)))
     = [0, 1, 2, 3, 4, 5, 6, 7, 8, 9,
        100000, 100001, 100002, 100003, 100004, 100005, 100006, 100007, 100008, 100009]
   \<and> fst (snd (size_arm demo_env ''white'' 1 10 0.05 0.1 (blank demo_env))) = 1
   \<and> fst (snd (power_arm demo_env ''white'' 1 10 0.05 0.1 (blank demo_env))) = 8"
    by (simp add: py_range_10 size_seed_def power_seed_def blank_def)
  let ?v' = "snd (snd (size_arm fit_fails_env ''white'' 1 10 0.05 0.1 (blank fit_fails_env)))"
  have f: "size_arm fit_fails_env ''white'' 1 10 0.05 0.1 (blank fit_fails_env)
     = (Some (Exc ''singular''), (0, ?v'))"
    by (simp add: fit_fails_size_arm)
  have s: "seeded ?v' = [0]"
    by (simp add: fit_fails_size_arm blank_def)
  from arm_tallies_bounded[OF p, THEN conjunct2, THEN conjunct1, THEN mp, OF f]
  obtain k where "int k \<le> 10"
    "seeded ?v' = seeded (blank fit_fails_env) @ map size_seed (take k (py_range 10))" by blast
  then have "int k \<le> 10 \<and> seeded ?v' = map size_seed (take k (py_range 10)) \<and> (0::int) \<le> int k"
    by (simp add: blank_def)
  then have e: "\<exists>k. int k \<le> 10 \<and> seeded ?v' = map size_seed (take k (py_range 10))
                 \<and> (0::int) \<le> int k" ..
  from a f s e show ?thesis by blast
qed

text \<open>
  The claim as it was stated fails: with a fit that raises and \<open>n_trials = 10\<close>, the call
  raises in the first trial of the size arm. The size arm has attempted one trial, the power
  arm none, and no result is returned.
\<close>

theorem fit_fault_cuts_arms_short:
  "(0::int) < 10
   \<and> fst (calibrate_test fit_fails_env ''white'' 1 10 0.05 0.1 (blank fit_fails_env))
     = Inl (Exc ''singular'')
   \<and> seeded (snd (calibrate_test fit_fails_env ''white'' 1 10 0.05 0.1 (blank fit_fails_env)))
     = [0]
   \<and> map size_seed (py_range 10) @ map power_seed (py_range 10)
     = [0, 1, 2, 3, 4, 5, 6, 7, 8, 9,
        100000, 100001, 100002, 100003, 100004, 100005, 100006, 100007, 100008, 100009]"
  by (simp add: fit_fails_calibration_10 blank_def py_range_10 size_seed_def power_seed_def)

subsection \<open>The sweep at strength zero\<close>

lemma sweep_abort_None_iff: "(sweep_abort oc = None) = (\<exists>h. oc = Verdict h)"
  by (cases oc) simp_all

lemma sweep_loop_stdout:
  assumes "for_each (sweep_trial E name ns a b s) (py_range n) (0, w) = (res, (d, w1))"
  shows "stdout w1 = stdout w"
proof -
  from for_each_prefix[OF sweep_trial_step assms]
  obtain k where "w1 = fold (\<lambda>t w. w\<lparr>rng := rng_after E ns t, seeded := seeded w @ [t]\<rparr>)
                         (take k (py_range n)) w" by blast
  then show ?thesis by (simp add: fold_seed_stdout)
qed

lemma sweep_point_abort_stdout:
  assumes "fst (sweep_point E name ns n a b s w) \<noteq> None"
  shows "stdout (snd (sweep_point E name ns n a b s w)) = stdout w"
proof -
  obtain res d w1 where l: "for_each (sweep_trial E name ns a b s) (py_range n) (0, w) = (res, (d, w1))"
    by (metis prod_cases3)
  note st = sweep_loop_stdout[OF l]
  show ?thesis
  proof (cases res)
    case (Some e)
    with l st show ?thesis by (simp add: sweep_point_def)
  next
    case None
    with l assms have "n = 0"
      by (auto simp: sweep_point_def rate_of_def split: if_splits)
    with l None st show ?thesis by (simp add: sweep_point_def rate_of_def)
  qed
qed

lemma sweep_zero_None_iff:
  "(fst (sweep_point E name ns n a b 0 w) = None)
     = (n \<noteq> 0 \<and> (\<forall>t\<in>set (py_range n). \<exists>h. size_outcome E name ns a b t = Verdict h))"
proof
  assume "fst (sweep_point E name ns n a b 0 w) = None"
  then have "sweep_point E name ns n a b 0 w = (None, snd (sweep_point E name ns n a b 0 w))"
    by (simp add: prod_eq_iff)
  from sweep_point_None(1,2)[OF this]
  show "n \<noteq> 0 \<and> (\<forall>t\<in>set (py_range n). \<exists>h. size_outcome E name ns a b t = Verdict h)"
    by (simp add: sweep_zero_outcome sweep_abort_None_iff)
next
  assume h: "n \<noteq> 0 \<and> (\<forall>t\<in>set (py_range n). \<exists>h. size_outcome E name ns a b t = Verdict h)"
  then have "\<forall>t\<in>set (py_range n). sweep_abort (sweep_outcome E name ns a b 0 t) = None"
    by (simp add: sweep_zero_outcome sweep_abort_None_iff)
  from sweep_point_completes[OF _ this, of w] h
  show "fst (sweep_point E name ns n a b 0 w) = None" by auto
qed

lemma sweep_zero_size_arm:
  assumes "sweep_point E name ns n a b 0 w = (None, w')"
  shows "size_arm E name ns n a b v = (None, (size_hits E name ns n a b, snd (snd (size_arm E name ns n a b v))))"
proof -
  from sweep_point_None(2)[OF assms]
  have "\<forall>t\<in>set (py_range n). \<exists>h. size_outcome E name ns a b t = Verdict h"
    by (simp add: sweep_zero_outcome sweep_abort_None_iff)
  then have "\<forall>t\<in>set (py_range n). calibration_abort (size_outcome E name ns a b t) = None"
    by auto
  from size_arm_completes[OF this, where w = v] show ?thesis by auto
qed

text \<open>
  Claim C6, as amended. The loop of \<^verbatim>\<open>power_curve\<close> generates its data with the generator of
  the size arm when \<open>strength = 0\<close>, with the seeds of the size arm. Run for strength \<open>0\<close> with
  the sample size, the number of trials, the level and the bandwidth of a call of
  \<^verbatim>\<open>calibrate_test\<close>, whatever the states of the random generator the two start from, it
  returns exactly when the number of trials is not zero and in every trial of the size arm
  the fit and the test return. When it returns, the size arm ends too, the detection rate
  printed is the counter of the size arm over the number of trials, and this is the size of
  the result whenever \<^verbatim>\<open>calibrate_test\<close> returns one. When it raises, it prints no rate,
  whatever \<^verbatim>\<open>calibrate_test\<close> returns. \<^verbatim>\<open>power_curve\<close> itself starts with this loop for
  strength \<open>0\<close>, with \<open>200\<close> samples and \<open>200\<close> trials.
\<close>

theorem sweep_zero_rate_is_size:
  "((fst (sweep_point E name n_samples n_trials alpha bandwidth 0 w) = None)
      = (n_trials \<noteq> 0
         \<and> (\<forall>t\<in>set (py_range n_trials).
               \<exists>h. size_outcome E name n_samples alpha bandwidth t = Verdict h)))
   \<and> (sweep_point E name n_samples n_trials alpha bandwidth 0 w = (None, w') \<longrightarrow>
        seeded w' = seeded w @ map size_seed (py_range n_trials)
      \<and> fst (size_arm E name n_samples n_trials alpha bandwidth v) = None
      \<and> stdout w' = stdout w
           @ [CurveRow 0 (real_of_int (fst (snd (size_arm E name n_samples n_trials alpha bandwidth v)))
                          / real_of_int n_trials)]
      \<and> (calibrate_test E name n_samples n_trials alpha bandwidth u = (Inr r, u') \<longrightarrow>
           stdout w' = stdout w @ [CurveRow 0 (empirical_size r)]))
   \<and> (fst (sweep_point E name n_samples n_trials alpha bandwidth 0 w) \<noteq> None \<longrightarrow>
        stdout (snd (sweep_point E name n_samples n_trials alpha bandwidth 0 w)) = stdout w)
   \<and> power_curve E name w
        = (case sweep_point E name 200 200 0.05 0.1 0 w of
             (Some e, w1) \<Rightarrow> (Some e, w1)
           | (None, w1) \<Rightarrow> for_each (sweep_point E name 200 200 0.05 0.1) (tl strengths) w1)"
proof -
  note 1 = sweep_zero_None_iff[of E name n_samples n_trials alpha bandwidth w]
  have 2: "sweep_point E name n_samples n_trials alpha bandwidth 0 w = (None, w') \<longrightarrow>
        seeded w' = seeded w @ map size_seed (py_range n_trials)
      \<and> fst (size_arm E name n_samples n_trials alpha bandwidth v) = None
      \<and> stdout w' = stdout w
           @ [CurveRow 0 (real_of_int (fst (snd (size_arm E name n_samples n_trials alpha bandwidth v)))
                          / real_of_int n_trials)]
      \<and> (calibrate_test E name n_samples n_trials alpha bandwidth u = (Inr r, u') \<longrightarrow>
           stdout w' = stdout w @ [CurveRow 0 (empirical_size r)])"
  proof
    assume sw: "sweep_point E name n_samples n_trials alpha bandwidth 0 w = (None, w')"
    note p = sweep_point_None[OF sw]
    note arm = sweep_zero_size_arm[OF sw, of v]
    have a: "seeded w' = seeded w @ map size_seed (py_range n_trials)"
      by (simp add: p(4) size_seed_def[abs_def])
    have b: "fst (size_arm E name n_samples n_trials alpha bandwidth v) = None"
      by (subst arm) simp
    have t: "fst (snd (size_arm E name n_samples n_trials alpha bandwidth v))
               = size_hits E name n_samples n_trials alpha bandwidth"
      by (subst arm) simp
    have c: "stdout w' = stdout w
           @ [CurveRow 0 (real_of_int (fst (snd (size_arm E name n_samples n_trials alpha bandwidth v)))
                          / real_of_int n_trials)]"
      by (simp add: p(3) t sweep_zero_hits)
    have d: "calibrate_test E name n_samples n_trials alpha bandwidth u = (Inr r, u') \<longrightarrow>
           stdout w' = stdout w @ [CurveRow 0 (empirical_size r)]"
    proof
      assume "calibrate_test E name n_samples n_trials alpha bandwidth u = (Inr r, u')"
      from calibrate_test_result(4)[OF this]
      show "stdout w' = stdout w @ [CurveRow 0 (empirical_size r)]"
        by (simp add: p(3) sweep_zero_hits)
    qed
    from a b c d
    show "seeded w' = seeded w @ map size_seed (py_range n_trials)
      \<and> fst (size_arm E name n_samples n_trials alpha bandwidth v) = None
      \<and> stdout w' = stdout w
           @ [CurveRow 0 (real_of_int (fst (snd (size_arm E name n_samples n_trials alpha bandwidth v)))
                          / real_of_int n_trials)]
      \<and> (calibrate_test E name n_samples n_trials alpha bandwidth u = (Inr r, u') \<longrightarrow>
           stdout w' = stdout w @ [CurveRow 0 (empirical_size r)])"
      by blast
  qed
  have 3: "fst (sweep_point E name n_samples n_trials alpha bandwidth 0 w) \<noteq> None \<longrightarrow>
        stdout (snd (sweep_point E name n_samples n_trials alpha bandwidth 0 w)) = stdout w"
    using sweep_point_abort_stdout[of E name n_samples n_trials alpha bandwidth 0 w] by blast
  have 4: "power_curve E name w
        = (case sweep_point E name 200 200 0.05 0.1 0 w of
             (Some e, w1) \<Rightarrow> (Some e, w1)
           | (None, w1) \<Rightarrow> for_each (sweep_point E name 200 200 0.05 0.1) (tl strengths) w1)"
    by (simp add: power_curve_def strengths_def split: prod.splits option.splits)
  from 1 2 3 4 show ?thesis by blast
qed

lemma band_alt0_outcome:
  assumes "0 \<le> t" "t < 100000"
  shows "trial_outcome (band_env k j) name a b (trumpet_dataset (band_env k j) (Suc 0) t 0)
           = Verdict (t < 2 * k)"
proof -
  from assms have e: "real (nat t) * 0.1 = real_of_int t * 0.1" by simp
  from assms have lt: "real_of_int t * 0.1 < 10000" by simp
  have "(real_of_int t * 0.1 < 0.2 * real_of_int k) = (real_of_int t < real_of_int (2 * k))"
    by (simp add: mult.commute)
  also have "\<dots> = (t < 2 * k)" by (rule of_int_less_iff)
  finally have v: "(real_of_int t * 0.1 < 0.2 * real_of_int k) = (t < 2 * k)" .
  show ?thesis
    unfolding trial_outcome_def band_trumpet_1 fst_conv snd_conv band_fit band_het_test e
    by (simp only: lt if_True v sum.case)
qed

lemma band_alt0_hits:
  assumes "0 \<le> k" "2 * k \<le> n" "n \<le> 100000"
  shows "sum_list (map (\<lambda>t. hit (trial_outcome (band_env k j) name a b
                                  (trumpet_dataset (band_env k j) (Suc 0) t 0)))
                       (py_range n)) = 2 * k"
proof -
  have "map (\<lambda>t. hit (trial_outcome (band_env k j) name a b
                         (trumpet_dataset (band_env k j) (Suc 0) t 0))) (py_range n)
          = map (\<lambda>t. hit (Verdict (t < 2 * k))) (py_range n)"
    using assms by (intro map_cong refl) (simp add: set_py_range band_alt0_outcome)
  then have "sum_list (map (\<lambda>t. hit (trial_outcome (band_env k j) name a b
                                  (trumpet_dataset (band_env k j) (Suc 0) t 0)))
                       (py_range n)) = min (max (2 * k) 0) (int (nat n))"
    by (simp only: py_range_def count_below)
  with assms show ?thesis by simp
qed

theorem sweep_zero_rate_is_size_witness:
  "fst (sweep_point (band_env 5 80) ''white'' 1 100 0.05 0.1 0 (blank (band_env 5 80))) = None
   \<and> stdout (snd (sweep_point (band_env 5 80) ''white'' 1 100 0.05 0.1 0 (blank (band_env 5 80))))
       = [CurveRow 0 0.05]
   \<and> seeded (snd (sweep_point (band_env 5 80) ''white'' 1 100 0.05 0.1 0 (blank (band_env 5 80))))
       = map size_seed (py_range 100)
   \<and> fst (calibrate_test (band_env 5 80) ''white'' 1 100 0.05 0.1 (blank (band_env 5 80)))
       = Inr \<lparr>test_name = ''white'', nominal_alpha = 0.05, empirical_size = 0.05,
              size_calibrated = True, power_rate = 0.80, power_adequate = True\<rparr>
   \<and> fst (snd (size_arm (band_env 5 80) ''white'' 1 100 0.05 0.1 (blank (band_env 5 80)))) = 5
   \<and> null_dataset (band_env 5 80) 1 1 = ([0], [0.2])
   \<and> trumpet_dataset (band_env 5 80) 1 1 0 = ([0], [0.1])
   \<and> sum_list (map (\<lambda>t. hit (trial_outcome (band_env 5 80) ''white'' 0.05 0.1
                                 (trumpet_dataset (band_env 5 80) 1 t 0)))
                      (py_range 100)) = 10
   \<and> fst (sweep_point demo_env ''white'' 1 10 0.05 0.1 0 (blank demo_env)) \<noteq> None
   \<and> stdout (snd (sweep_point demo_env ''white'' 1 10 0.05 0.1 0 (blank demo_env))) = []"
proof -
  let ?B = "band_env 5 80"
  let ?sw = "sweep_point ?B ''white'' 1 100 0.05 0.1 0 (blank ?B)"
  note T = sweep_zero_rate_is_size[of ?B "''white''" 1 100 "0.05" "0.1" "blank ?B" "snd ?sw"
      "blank ?B" "blank ?B"]
  have ok: "(100::int) \<noteq> 0
      \<and> (\<forall>t\<in>set (py_range 100). \<exists>h. size_outcome ?B ''white'' 1 0.05 0.1 t = Verdict h)"
    by (simp add: set_py_range band_size_outcome)
  from T[THEN conjunct1] ok have n: "fst ?sw = None" by blast
  then have sw: "?sw = (None, snd ?sw)" by (simp add: prod_eq_iff)
  obtain u' where c: "calibrate_test ?B ''white'' 1 100 0.05 0.1 (blank ?B) =
     (Inr \<lparr>test_name = ''white'', nominal_alpha = 0.05, empirical_size = 0.05,
           size_calibrated = True, power_rate = 0.80, power_adequate = True\<rparr>, u')"
    using band_calibration[of 5 100 80 "''white''" "0.05" "0.1" "blank ?B"] by auto
  note T2 = T[THEN conjunct2, THEN conjunct1, THEN mp, OF sw]
  from T2 have sd: "seeded (snd ?sw) = seeded (blank ?B) @ map size_seed (py_range 100)"
    by blast
  from T2 have "calibrate_test ?B ''white'' 1 100 0.05 0.1 (blank ?B)
      = (Inr \<lparr>test_name = ''white'', nominal_alpha = 0.05, empirical_size = 0.05,
           size_calibrated = True, power_rate = 0.80, power_adequate = True\<rparr>, u') \<longrightarrow>
       stdout (snd ?sw) = stdout (blank ?B)
         @ [CurveRow 0 (empirical_size \<lparr>test_name = ''white'', nominal_alpha = 0.05,
              empirical_size = 0.05, size_calibrated = True, power_rate = 0.80,
              power_adequate = True\<rparr>)]"
    using sweep_zero_rate_is_size[of ?B "''white''" 1 100 "0.05" "0.1" "blank ?B" "snd ?sw"
      "blank ?B" "blank ?B" _ u', THEN conjunct2, THEN conjunct1, THEN mp, OF sw]
    by blast
  with c have so: "stdout (snd ?sw) = [CurveRow 0 0.05]"
    by (simp add: blank_def)
  from T2 have "stdout (snd ?sw) = stdout (blank ?B)
      @ [CurveRow 0 (real_of_int (fst (snd (size_arm ?B ''white'' 1 100 0.05 0.1 (blank ?B))))
                     / real_of_int 100)]" by blast
  with so have tally: "fst (snd (size_arm ?B ''white'' 1 100 0.05 0.1 (blank ?B))) = 5"
    by (simp add: blank_def)
  have d0: "null_dataset ?B 1 1 = ([0], [0.2])"
    by (simp add: band_null_1)
  have d1: "trumpet_dataset ?B 1 1 0 = ([0], [0.1])"
    by (simp add: band_trumpet_1)
  have alt: "sum_list (map (\<lambda>t. hit (trial_outcome ?B ''white'' 0.05 0.1
                                 (trumpet_dataset ?B 1 t 0))) (py_range 100)) = 10"
    using band_alt0_hits[of 5 100 80 "''white''" "0.05" "0.1"] by simp
  let ?ds = "sweep_point demo_env ''white'' 1 10 0.05 0.1 0 (blank demo_env)"
  note D = sweep_zero_rate_is_size[of demo_env "''white''" 1 10 "0.05" "0.1" "blank demo_env"]
  have bad: "\<not> ((10::int) \<noteq> 0
      \<and> (\<forall>t\<in>set (py_range 10). \<exists>h. size_outcome demo_env ''white'' 1 0.05 0.1 t = Verdict h))"
    by (simp add: py_range_10 demo_size_outcome)
  from D[THEN conjunct1] bad have dn: "fst ?ds \<noteq> None" by blast
  from D[THEN conjunct2, THEN conjunct2, THEN conjunct1, THEN mp, OF dn]
  have dso: "stdout (snd ?ds) = []" by (simp add: blank_def)
  from n so sd c tally d0 d1 alt dn dso show ?thesis
    by (simp add: blank_def)
qed

text \<open>
  The claim as it was stated fails: with the same environment, name and parameters, the
  calibration returns a size of \<open>0.10\<close>, the test of trial \<open>1\<close> having raised, and the sweep
  at strength \<open>0\<close> raises in that trial and prints no rate.
\<close>

theorem sweep_zero_no_rate:
  "fst (calibrate_test demo_env ''white'' 1 10 0.05 0.1 (blank demo_env))
     = Inr \<lparr>test_name = ''white'', nominal_alpha = 0.05, empirical_size = 0.10,
            size_calibrated = True, power_rate = 0.80, power_adequate = True\<rparr>
   \<and> size_outcome demo_env ''white'' 1 0.05 0.1 1 = TestRaised (Exc ''singular'')
   \<and> fst (sweep_point demo_env ''white'' 1 10 0.05 0.1 0 (blank demo_env))
     = Some (Exc ''singular'')
   \<and> stdout (snd (sweep_point demo_env ''white'' 1 10 0.05 0.1 0 (blank demo_env))) = []"
proof -
  have 1: "fst (calibrate_test demo_env ''white'' 1 10 0.05 0.1 (blank demo_env))
     = Inr \<lparr>test_name = ''white'', nominal_alpha = 0.05, empirical_size = 0.10,
            size_calibrated = True, power_rate = 0.80, power_adequate = True\<rparr>"
    using demo_calibration[of "''white''" "0.05" "0.1" "blank demo_env"] by auto
  have 2: "size_outcome demo_env ''white'' 1 0.05 0.1 1 = TestRaised (Exc ''singular'')"
    by (simp add: demo_size_outcome)
  have f: "find (\<lambda>t. sweep_abort (sweep_outcome demo_env ''white'' 1 0.05 0.1 0 t) \<noteq> None)
             (py_range 10) = Some 1"
    by (simp add: py_range_10 sweep_zero_outcome demo_size_outcome)
  from sweep_point_first_abort[OF f, of "blank demo_env"]
  have 3: "fst (sweep_point demo_env ''white'' 1 10 0.05 0.1 0 (blank demo_env))
     = Some (Exc ''singular'')"
    by (simp add: sweep_zero_outcome demo_size_outcome)
  then have "fst (sweep_point demo_env ''white'' 1 10 0.05 0.1 0 (blank demo_env)) \<noteq> None"
    by simp
  from sweep_point_abort_stdout[OF this]
  have 4: "stdout (snd (sweep_point demo_env ''white'' 1 10 0.05 0.1 0 (blank demo_env))) = []"
    by (simp add: blank_def)
  from 1 2 3 4 show ?thesis by blast
qed

end
